theory Spec2Isabelle
  imports Main "HOL-Library.Multiset"
begin

section \<open>Data model\<close>

text \<open>
  The durable records of \<^verbatim>\<open>chat/models.py\<close> and \<^verbatim>\<open>users/models.py\<close>, with the fields the
  room consumer of \<^verbatim>\<open>chat/consumers.py\<close> reads or writes. Primary keys of users and rooms
  are naturals, those of messages are integers (a read receipt names one by a JSON
  number), timestamps are integers. A message holds its sender as the consumer sees it
  after \<^verbatim>\<open>select_related('sender')\<close>. The status column is a plain string: neither
  \<^verbatim>\<open>Message.save\<close> nor the consumer checks it against \<^verbatim>\<open>STATUS_CHOICES\<close>.
\<close>

record user =
  user_id :: nat
  username :: string

text \<open>What \<^verbatim>\<open>scope['user']\<close> holds: Django's \<^verbatim>\<open>AnonymousUser\<close> or a stored user.\<close>

datatype any_user = AnonymousUser | AuthUser user

record chat_room =
  room_pk :: nat
  members :: "nat list"

record message =
  message_id :: int
  content :: string
  sender :: user
  room :: nat
  timestamp :: int
  status :: string

text \<open>
  A value read by \<^verbatim>\<open>json.loads\<close> (numbers are the integers). An object keeps its pairs
  in the order of the text; \<open>py_get\<close> below reads the last pair of a key, as the Python
  dict does.
\<close>

datatype json =
    JNull
  | JBool bool
  | JInt int
  | JStr string
  | JArr "json list"
  | JObj "(string \<times> json) list"

datatype exn =
    JSONDecodeError
  | AttributeError
  | KeyError
  | ValueError
  | IntegrityError
  | OperationalError
  | MessageDoesNotExist
  | ChatRoomDoesNotExist

text \<open>
  The storage collaborator. \<open>available\<close> is False when the database cannot be reached:
  every query then raises. \<open>coerce_pk\<close> and \<open>coerce_text\<close> stand for the conversions
  of Django's fields, which are not part of the repository: the primary key a lookup
  value that is not a JSON integer is converted to (None when the conversion raises), and
  the text a non-null content that is not a string is stored as. \<open>order_newest\<close> is the
  order in which the database returns rows for \<^verbatim>\<open>ORDER BY timestamp DESC\<close>: the query
  names no second key, so the order of rows of equal timestamp is the database's own.
\<close>

record db =
  available :: bool
  chat_rooms :: "chat_room list"
  messages :: "message list"
  next_id :: int
  coerce_pk :: "json \<Rightarrow> int option"
  coerce_text :: "json \<Rightarrow> string"
  order_newest :: "message list \<Rightarrow> message list"

text \<open>Events put on a room group with \<^verbatim>\<open>group_send\<close>; the constructor is the \<^verbatim>\<open>type\<close> key.\<close>

datatype event =
    ChatMessage "json option" json string string "string option" int
      \<comment> \<open>message_id (when present), message, user, message_type, status (when present), timestamp\<close>
  | UserStatus string json int
      \<comment> \<open>user, status, timestamp\<close>
  | TypingStatus string json int
      \<comment> \<open>user, is_typing, timestamp\<close>
  | MessageStatus json string string int
      \<comment> \<open>message_id, status, user, timestamp\<close>

text \<open>Frames written to one websocket with \<^verbatim>\<open>self.send\<close>.\<close>

datatype frame =
    ChatMessageF json json string string json int
  | UserStatusF string json int
  | TypingStatusF string json int
  | MessageStatusF json string string int
  | ErrorF exn

datatype level = INFO | WARNING | ERROR

text \<open>
  What a handler does besides changing the state, in the order it does it. A log record
  keeps the format string of the source. \<open>DbCreate\<close> and \<open>DbSave\<close> are the durable
  writes; \<open>Send\<close>, \<open>Accept\<close> and \<open>Close\<close> name the channel of the connection.
  The channel layer and the websocket are taken to work: \<^verbatim>\<open>group_send\<close>, \<^verbatim>\<open>group_add\<close>,
  \<^verbatim>\<open>group_discard\<close>, \<^verbatim>\<open>send\<close>, \<^verbatim>\<open>accept\<close> and \<^verbatim>\<open>close\<close> do not raise.
\<close>

datatype effect =
    Log level string
  | DbCreate message
  | DbSave message
  | GroupAdd string string
  | GroupDiscard string string
  | GroupSend string event
  | Send string frame
  | Accept string
  | Close string nat

record world =
  storage :: db
  groups :: "string \<Rightarrow> string set"
  now :: int
  trace :: "effect list"

text \<open>
  The consumer object. \<open>scope_user\<close> and \<open>scope_room_id\<close> are what the middleware and
  the router put in the scope; the other fields are the attributes \<^verbatim>\<open>connect\<close> sets, None
  while the attribute does not exist (\<^verbatim>\<open>hasattr\<close> is False).
\<close>

record consumer =
  channel_name :: string
  scope_user :: any_user
  scope_room_id :: nat
  self_user :: "any_user option"
  self_room_id :: "nat option"
  self_room :: "chat_room option"
  self_room_group_name :: "string option"

section \<open>Handlers as state transformers that may raise\<close>

type_synonym 'a io = "world \<Rightarrow> (exn + 'a) \<times> world"

definition returns :: "'a \<Rightarrow> 'a io" where
  "returns x = (\<lambda>w. (Inr x, w))"

definition raises :: "exn \<Rightarrow> 'a io" where
  "raises e = (\<lambda>w. (Inl e, w))"

definition io_bind :: "'a io \<Rightarrow> ('a \<Rightarrow> 'b io) \<Rightarrow> 'b io" where
  "io_bind m f = (\<lambda>w. case m w of (Inl e, w') \<Rightarrow> (Inl e, w') | (Inr x, w') \<Rightarrow> f x w')"

definition try_except :: "'a io \<Rightarrow> (exn \<Rightarrow> 'a io) \<Rightarrow> 'a io" where
  "try_except m h = (\<lambda>w. case m w of (Inl e, w') \<Rightarrow> h e w' | (Inr x, w') \<Rightarrow> (Inr x, w'))"

definition emit :: "effect \<Rightarrow> unit io" where
  "emit e = (\<lambda>w. (Inr (), w\<lparr>trace := trace w @ [e]\<rparr>))"

definition attr :: "'a option \<Rightarrow> 'a io" where
  "attr a = (case a of None \<Rightarrow> raises AttributeError | Some x \<Rightarrow> returns x)"

definition timezone_now :: "int io" where
  "timezone_now = (\<lambda>w. (Inr (now w), w))"

definition log :: "level \<Rightarrow> string \<Rightarrow> unit io" where
  "log l s = emit (Log l s)"

definition group_send :: "string \<Rightarrow> event \<Rightarrow> unit io" where
  "group_send g ev = emit (GroupSend g ev)"

definition group_add :: "string \<Rightarrow> string \<Rightarrow> unit io" where
  "group_add g ch =
     (\<lambda>w. (Inr (), w\<lparr>groups := (groups w)(g := insert ch (groups w g)),
                      trace := trace w @ [GroupAdd g ch]\<rparr>))"

definition group_discard :: "string \<Rightarrow> string \<Rightarrow> unit io" where
  "group_discard g ch =
     (\<lambda>w. (Inr (), w\<lparr>groups := (groups w)(g := groups w g - {ch}),
                      trace := trace w @ [GroupDiscard g ch]\<rparr>))"

definition send :: "consumer \<Rightarrow> frame \<Rightarrow> unit io" where
  "send self f = emit (Send (channel_name self) f)"

definition accept :: "consumer \<Rightarrow> unit io" where
  "accept self = emit (Accept (channel_name self))"

definition close :: "consumer \<Rightarrow> nat \<Rightarrow> unit io" where
  "close self code = emit (Close (channel_name self) code)"

text \<open>\<^verbatim>\<open>AnonymousUser.username\<close> is the empty string.\<close>

definition username_of :: "any_user \<Rightarrow> string" where
  "username_of u = (case u of AnonymousUser \<Rightarrow> [] | AuthUser x \<Rightarrow> username x)"

text \<open>
  \<^verbatim>\<open>message.sender != self.user\<close>: Django compares model instances by primary key, and
  an instance differs from anything that is not a model instance.
\<close>

definition differs :: "user \<Rightarrow> any_user \<Rightarrow> bool" where
  "differs s u = (case u of AnonymousUser \<Rightarrow> True | AuthUser x \<Rightarrow> user_id s \<noteq> user_id x)"

section \<open>Python values\<close>

text \<open>\<^verbatim>\<open>d.get(key, default)\<close>; a value that is not a dict has no \<^verbatim>\<open>get\<close>.\<close>

definition py_get :: "(string \<times> json) list \<Rightarrow> string \<Rightarrow> json \<Rightarrow> json" where
  "py_get kvs k d = (case map_of (rev kvs) k of None \<Rightarrow> d | Some v \<Rightarrow> v)"

definition dict_get :: "json \<Rightarrow> string \<Rightarrow> json \<Rightarrow> json io" where
  "dict_get j k d =
     (case j of
        JObj kvs \<Rightarrow> returns (py_get kvs k d)
      | _ \<Rightarrow> raises AttributeError)"

text \<open>The truth value of \<^verbatim>\<open>if message_id:\<close>.\<close>

fun truthy :: "json \<Rightarrow> bool" where
  "truthy JNull = False"
| "truthy (JBool b) = b"
| "truthy (JInt i) = (i \<noteq> 0)"
| "truthy (JStr s) = (s \<noteq> [])"
| "truthy (JArr xs) = (xs \<noteq> [])"
| "truthy (JObj kvs) = (kvs \<noteq> [])"

text \<open>The decimal text of a room id, for \<^verbatim>\<open>f'chat_{self.room_id}'\<close>.\<close>

fun str_nat :: "nat \<Rightarrow> string" where
  "str_nat n =
     (if n < 10 then [char_of (48 + n)]
      else str_nat (n div 10) @ [char_of (48 + n mod 10)])"

declare str_nat.simps [simp del]

definition opt_json :: "json option \<Rightarrow> json" where
  "opt_json v = (case v of None \<Rightarrow> JNull | Some x \<Rightarrow> x)"

definition opt_str :: "string option \<Rightarrow> json" where
  "opt_str v = (case v of None \<Rightarrow> JNull | Some s \<Rightarrow> JStr s)"

section \<open>Storage queries\<close>

definition to_pk :: "db \<Rightarrow> json \<Rightarrow> int option" where
  "to_pk d key = (case key of JInt i \<Rightarrow> Some i | _ \<Rightarrow> coerce_pk d key)"

text \<open>\<^verbatim>\<open>Message.objects.get(id=message_id)\<close>\<close>

definition Message_objects_get :: "json \<Rightarrow> message io" where
  "Message_objects_get key =
     (\<lambda>w. if \<not> available (storage w) then (Inl OperationalError, w)
          else case to_pk (storage w) key of
                 None \<Rightarrow> (Inl ValueError, w)
               | Some k \<Rightarrow>
                  (case find (\<lambda>m. message_id m = k) (messages (storage w)) of
                     None \<Rightarrow> (Inl MessageDoesNotExist, w)
                   | Some m \<Rightarrow> (Inr m, w)))"

text \<open>\<^verbatim>\<open>message.save()\<close> of a loaded message: the row of its primary key is rewritten.\<close>

definition save_row :: "message \<Rightarrow> message list \<Rightarrow> message list" where
  "save_row m xs = map (\<lambda>x. if message_id x = message_id m then m else x) xs"

definition message_save :: "message \<Rightarrow> unit io" where
  "message_save m =
     (\<lambda>w. if \<not> available (storage w) then (Inl OperationalError, w)
          else (Inr (),
                w\<lparr>storage := (storage w)\<lparr>messages := save_row m (messages (storage w))\<rparr>,
                  trace := trace w @ [DbSave m]\<rparr>))"

text \<open>
  \<^verbatim>\<open>Message.objects.create(content=..., sender=self.user, room=self.room, status=..., timestamp=...)\<close>:
  the instance is built first (a sender that is not a user is refused), then inserted; the
  content column is not nullable. The \<^verbatim>\<open>post_save\<close> receiver of \<^verbatim>\<open>chat/signals.py\<close> sends to
  the group \<^verbatim>\<open>chatroom_<id>\<close>, which no consumer joins; it is not part of the model.
\<close>

definition text_of :: "db \<Rightarrow> json \<Rightarrow> string" where
  "text_of d c = (case c of JStr s \<Rightarrow> s | _ \<Rightarrow> coerce_text d c)"

definition Message_objects_create ::
    "json \<Rightarrow> any_user \<Rightarrow> chat_room \<Rightarrow> string \<Rightarrow> int \<Rightarrow> message io" where
  "Message_objects_create c u r st t =
     (\<lambda>w. case u of
            AnonymousUser \<Rightarrow> (Inl ValueError, w)
          | AuthUser x \<Rightarrow>
              if \<not> available (storage w) then (Inl OperationalError, w)
              else if c = JNull then (Inl IntegrityError, w)
              else
                let m = \<lparr>message_id = next_id (storage w),
                         content = text_of (storage w) c,
                         sender = x, room = room_pk r, timestamp = t, status = st\<rparr>
                in (Inr m,
                    w\<lparr>storage := (storage w)\<lparr>messages := messages (storage w) @ [m],
                                              next_id := next_id (storage w) + 1\<rparr>,
                      trace := trace w @ [DbCreate m]\<rparr>))"

text \<open>\<^verbatim>\<open>ChatRoom.objects.get(id=self.room_id)\<close>\<close>

definition ChatRoom_objects_get :: "nat \<Rightarrow> chat_room io" where
  "ChatRoom_objects_get rid =
     (\<lambda>w. if \<not> available (storage w) then (Inl OperationalError, w)
          else case find (\<lambda>r. room_pk r = rid) (chat_rooms (storage w)) of
                 None \<Rightarrow> (Inl ChatRoomDoesNotExist, w)
               | Some r \<Rightarrow> (Inr r, w))"

text \<open>\<^verbatim>\<open>self.room.members.filter(id=self.user.id).exists()\<close>\<close>

definition members_filter_exists :: "chat_room \<Rightarrow> user \<Rightarrow> bool io" where
  "members_filter_exists r u =
     (\<lambda>w. if \<not> available (storage w) then (Inl OperationalError, w)
          else (Inr (user_id u \<in> set (members r)), w))"

text \<open>
  \<^verbatim>\<open>list(Message.objects.filter(room=self.room).order_by('-timestamp')[:50])\<close>: the rows of
  the room in the order the database gives them, at most 50. \<open>newest_first xs ys\<close> is
  what every answer \<open>ys\<close> of the database to the ordering of the rows \<open>xs\<close> satisfies: the
  same rows, timestamps descending. It says nothing on rows of equal timestamp.
\<close>

definition newest_first :: "message list \<Rightarrow> message list \<Rightarrow> bool" where
  "newest_first xs ys = (mset ys = mset xs \<and> sorted (map (\<lambda>m. - timestamp m) ys))"

definition room_rows :: "db \<Rightarrow> chat_room \<Rightarrow> message list" where
  "room_rows d r = filter (\<lambda>m. room m = room_pk r) (messages d)"

definition recent_rows :: "db \<Rightarrow> chat_room \<Rightarrow> message list" where
  "recent_rows d r = take 50 (order_newest d (room_rows d r))"

definition recent_messages :: "chat_room \<Rightarrow> message list io" where
  "recent_messages r =
     (\<lambda>w. if \<not> available (storage w) then (Inl OperationalError, w)
          else (Inr (recent_rows (storage w) r), w))"

section \<open>The room consumer\<close>

subsection \<open>Broadcast helpers\<close>

definition update_user_status :: "consumer \<Rightarrow> json \<Rightarrow> unit io" where
  "update_user_status self st =
     io_bind (attr (self_room_group_name self)) (\<lambda>g.
     io_bind (attr (self_user self)) (\<lambda>u.
     io_bind timezone_now (\<lambda>t.
     group_send g (UserStatus (username_of u) st t))))"

definition update_typing_status :: "consumer \<Rightarrow> json \<Rightarrow> unit io" where
  "update_typing_status self is_typing =
     io_bind (attr (self_room_group_name self)) (\<lambda>g.
     io_bind (attr (self_user self)) (\<lambda>u.
     io_bind timezone_now (\<lambda>t.
     group_send g (TypingStatus (username_of u) is_typing t))))"

text \<open>
  \<^verbatim>\<open>update_message_status\<close>: load the message, set its status, save it, then broadcast.
  Both handlers of the \<^verbatim>\<open>try\<close> only log.
\<close>

definition update_message_status :: "consumer \<Rightarrow> json \<Rightarrow> string \<Rightarrow> unit io" where
  "update_message_status self mid st =
     try_except
       (io_bind (Message_objects_get mid) (\<lambda>message.
        io_bind (message_save (message\<lparr>status := st\<rparr>)) (\<lambda>_.
        io_bind (attr (self_room_group_name self)) (\<lambda>g.
        io_bind (attr (self_user self)) (\<lambda>u.
        io_bind timezone_now (\<lambda>t.
        io_bind (group_send g (MessageStatus mid st (username_of u) t)) (\<lambda>_.
        log INFO ''Message {message_id} status updated to {status} by {self.user.username}'')))))))
       (\<lambda>e. if e = MessageDoesNotExist then log ERROR ''Message {message_id} not found''
            else log ERROR ''Error updating message status: {str(e)}'')"

subsection \<open>connect\<close>

text \<open>The history loop of \<^verbatim>\<open>connect\<close>, over \<^verbatim>\<open>reversed(messages)\<close>.\<close>

definition history_frame :: "message \<Rightarrow> frame" where
  "history_frame m =
     ChatMessageF (JInt (message_id m)) (JStr (content m)) (username (sender m)) ''message''
       (JStr (status m)) (timestamp m)"

fun replay :: "consumer \<Rightarrow> message list \<Rightarrow> unit io" where
  "replay self [] = returns ()"
| "replay self (m # ms) =
     io_bind (send self (history_frame m)) (\<lambda>_.
     io_bind (attr (self_user self)) (\<lambda>u.
     io_bind (if differs (sender m) u \<and> status m = ''sent''
              then update_message_status self (JInt (message_id m)) ''delivered''
              else returns ()) (\<lambda>_.
     replay self ms)))"

text \<open>What \<^verbatim>\<open>connect\<close> does once the room group name is set.\<close>

definition connect_joined :: "consumer \<Rightarrow> unit io" where
  "connect_joined self =
     io_bind (log INFO ''User {self.user.username} attempting to connect to room {self.room_id}'') (\<lambda>_.
     io_bind (attr (self_room_group_name self)) (\<lambda>g.
     io_bind (group_add g (channel_name self)) (\<lambda>_.
     io_bind (accept self) (\<lambda>_.
     io_bind (attr (self_room self)) (\<lambda>r.
     io_bind (recent_messages r) (\<lambda>msgs.
     io_bind (replay self (rev msgs)) (\<lambda>_.
     io_bind (attr (self_user self)) (\<lambda>u.
     io_bind timezone_now (\<lambda>t.
     io_bind (group_send g (ChatMessage None (JStr (username_of u @ '' joined the chat''))
                (username_of u) ''join'' None t)) (\<lambda>_.
     io_bind (update_user_status self (JStr ''online'')) (\<lambda>_.
     log INFO ''User {self.user.username} successfully connected to room {self.room_id}'')))))))))))"

definition connect_failed :: "consumer \<Rightarrow> exn \<Rightarrow> unit io" where
  "connect_failed self e =
     io_bind (log ERROR ''Error in connect: {str(e)}'') (\<lambda>_. close self 4000)"

definition room_missing :: "consumer \<Rightarrow> unit io" where
  "room_missing self =
     io_bind (log WARNING ''Attempted to connect to non-existent room {self.room_id}'') (\<lambda>_.
     close self 4004)"

definition connect :: "consumer \<Rightarrow> world \<Rightarrow> consumer \<times> world" where
  "connect self w =
     (let self1 = self\<lparr>self_user := Some (scope_user self)\<rparr> in
      case scope_user self of
        AnonymousUser \<Rightarrow>
          (self1, snd (io_bind (log WARNING ''Unauthenticated user tried to connect'')
                         (\<lambda>_. close self1 4001) w))
      | AuthUser u \<Rightarrow>
          let self2 = self1\<lparr>self_room_id := Some (scope_room_id self)\<rparr> in
          (case ChatRoom_objects_get (scope_room_id self) w of
             (Inl e, w1) \<Rightarrow>
               (self2, snd ((if e = ChatRoomDoesNotExist then room_missing self2
                             else connect_failed self2 e) w1))
           | (Inr r, w1) \<Rightarrow>
               let self3 = self2\<lparr>self_room := Some r\<rparr> in
               (case members_filter_exists r u w1 of
                  (Inl e, w2) \<Rightarrow>
                    (self3, snd ((if e = ChatRoomDoesNotExist then room_missing self3
                                  else connect_failed self3 e) w2))
                | (Inr is_member, w2) \<Rightarrow>
                    if \<not> is_member then
                      (self3, snd (io_bind
                         (log WARNING ''User {self.user.username} tried to join room {self.room_id} without membership'')
                         (\<lambda>_. close self3 4002) w2))
                    else
                      let self4 = self3\<lparr>self_room_group_name :=
                                    Some (''chat_'' @ str_nat (scope_room_id self))\<rparr>
                      in (self4, snd (try_except (connect_joined self4)
                                        (connect_failed self4) w2)))))"

subsection \<open>disconnect\<close>

definition disconnect :: "consumer \<Rightarrow> nat \<Rightarrow> world \<Rightarrow> world" where
  "disconnect self close_code w =
     snd (try_except
       (case (self_room_group_name self, self_user self) of
          (Some g, Some u) \<Rightarrow>
            io_bind (update_user_status self (JStr ''offline'')) (\<lambda>_.
            io_bind (update_typing_status self (JBool False)) (\<lambda>_.
            io_bind timezone_now (\<lambda>t.
            io_bind (group_send g (ChatMessage None (JStr (username_of u @ '' left the chat''))
                       (username_of u) ''leave'' None t)) (\<lambda>_.
            io_bind (group_discard g (channel_name self)) (\<lambda>_.
            io_bind (attr (self_room_id self)) (\<lambda>_.
            log INFO ''User {self.user.username} disconnected from room {self.room_id} with code: {close_code}''))))))
        | _ \<Rightarrow> returns ())
       (\<lambda>e. log ERROR ''Error in disconnect: {str(e)}'') w)"

subsection \<open>receive\<close>

text \<open>
  \<^verbatim>\<open>receive\<close> takes the outcome of \<^verbatim>\<open>json.loads(text_data)\<close>: None when the text is not
  JSON.
\<close>

definition json_loads :: "json option \<Rightarrow> json io" where
  "json_loads t = (case t of None \<Rightarrow> raises JSONDecodeError | Some j \<Rightarrow> returns j)"

definition new_message :: "consumer \<Rightarrow> json \<Rightarrow> unit io" where
  "new_message self text_data_json =
     io_bind (dict_get text_data_json ''message'' (JStr [])) (\<lambda>message_content.
     io_bind (attr (self_user self)) (\<lambda>u.
     io_bind (attr (self_room_id self)) (\<lambda>_.
     io_bind (log INFO ''Received message from {self.user.username} in room {self.room_id}: {message_content}'') (\<lambda>_.
     io_bind (update_typing_status self (JBool False)) (\<lambda>_.
     io_bind (attr (self_room self)) (\<lambda>r.
     io_bind timezone_now (\<lambda>t.
     io_bind (Message_objects_create message_content u r ''sending'' t) (\<lambda>message.
     io_bind (attr (self_room_group_name self)) (\<lambda>g.
     io_bind (group_send g (ChatMessage (Some (JInt (message_id message))) message_content
                (username_of u) ''message'' (Some ''sent'') (timestamp message))) (\<lambda>_.
     update_message_status self (JInt (message_id message)) ''sent''))))))))))"

definition receive_body :: "consumer \<Rightarrow> json option \<Rightarrow> unit io" where
  "receive_body self text_data =
     io_bind (json_loads text_data) (\<lambda>text_data_json.
     io_bind (dict_get text_data_json ''type'' (JStr ''message'')) (\<lambda>message_type.
     if message_type = JStr ''status'' then
       io_bind (dict_get text_data_json ''status'' JNull) (\<lambda>st.
       if st \<in> set [JStr ''online'', JStr ''offline'', JStr ''away'']
       then update_user_status self st else returns ())
     else if message_type = JStr ''typing'' then
       io_bind (dict_get text_data_json ''is_typing'' (JBool False)) (\<lambda>is_typing.
       update_typing_status self is_typing)
     else if message_type = JStr ''read_receipt'' then
       io_bind (dict_get text_data_json ''message_id'' JNull) (\<lambda>mid.
       if truthy mid then update_message_status self mid ''seen''
       else returns ())
     else new_message self text_data_json))"

definition report_error :: "consumer \<Rightarrow> string \<Rightarrow> exn \<Rightarrow> unit io" where
  "report_error self s e = io_bind (log ERROR s) (\<lambda>_. send self (ErrorF e))"

definition receive :: "consumer \<Rightarrow> json option \<Rightarrow> world \<Rightarrow> world" where
  "receive self text_data w =
     snd (try_except (receive_body self text_data)
            (report_error self ''Error in receive: {str(e)}'') w)"

subsection \<open>Handlers of group events\<close>

definition chat_message :: "consumer \<Rightarrow> event \<Rightarrow> world \<Rightarrow> world" where
  "chat_message self ev w =
     snd (try_except
       (case ev of
          ChatMessage mid msg usr mtype st ts \<Rightarrow>
            io_bind (send self (ChatMessageF (opt_json mid) msg usr mtype (opt_str st) ts)) (\<lambda>_.
            if mtype = ''message'' then
              io_bind (attr (self_user self)) (\<lambda>u.
              if usr \<noteq> username_of u \<and> st = Some ''sent'' then
                (case mid of
                   None \<Rightarrow> raises KeyError
                 | Some i \<Rightarrow> update_message_status self i ''delivered'')
              else returns ())
            else returns ())
        | _ \<Rightarrow> raises KeyError)
       (report_error self ''Error in chat_message: {str(e)}'') w)"

definition user_status :: "consumer \<Rightarrow> event \<Rightarrow> world \<Rightarrow> world" where
  "user_status self ev w =
     snd (try_except
       (case ev of
          UserStatus usr st ts \<Rightarrow> send self (UserStatusF usr st ts)
        | _ \<Rightarrow> raises KeyError)
       (report_error self ''Error in user_status: {str(e)}'') w)"

definition typing_status :: "consumer \<Rightarrow> event \<Rightarrow> world \<Rightarrow> world" where
  "typing_status self ev w =
     snd (try_except
       (case ev of
          TypingStatus usr is_typing ts \<Rightarrow> send self (TypingStatusF usr is_typing ts)
        | _ \<Rightarrow> raises KeyError)
       (report_error self ''Error in typing_status: {str(e)}'') w)"

definition message_status :: "consumer \<Rightarrow> event \<Rightarrow> world \<Rightarrow> world" where
  "message_status self ev w =
     snd (try_except
       (case ev of
          MessageStatus mid st usr ts \<Rightarrow> send self (MessageStatusF mid st usr ts)
        | _ \<Rightarrow> raises KeyError)
       (report_error self ''Error in message_status: {str(e)}'') w)"

text \<open>
  The channel layer hands an event of a group to every channel of the group, and the
  consumer of the channel runs the handler the event's \<^verbatim>\<open>type\<close> names.
\<close>

definition dispatch :: "consumer \<Rightarrow> event \<Rightarrow> world \<Rightarrow> world" where
  "dispatch self ev =
     (case ev of
        ChatMessage _ _ _ _ _ _ \<Rightarrow> chat_message self ev
      | UserStatus _ _ _ \<Rightarrow> user_status self ev
      | TypingStatus _ _ _ \<Rightarrow> typing_status self ev
      | MessageStatus _ _ _ _ \<Rightarrow> message_status self ev)"

subsection \<open>Token authentication (\<^verbatim>\<open>chat/jwt_middleware.py\<close>)\<close>

text \<open>
  \<^verbatim>\<open>get_user_from_token\<close>. The validation of a token is the JWT library's: \<open>access_token\<close>
  gives None when \<^verbatim>\<open>AccessToken(token_key)\<close> raises \<^verbatim>\<open>InvalidToken\<close> or \<^verbatim>\<open>TokenError\<close>, and
  otherwise the \<^verbatim>\<open>user_id\<close> claim of the token when it has one. A token without the claim
  raises \<^verbatim>\<open>KeyError\<close>, which the function does not catch.
\<close>

definition get_user_from_token ::
    "(string \<Rightarrow> nat option option) \<Rightarrow> user list \<Rightarrow> string option \<Rightarrow> exn + any_user" where
  "get_user_from_token access_token users token_key =
     (case token_key of
        None \<Rightarrow> Inr AnonymousUser
      | Some k \<Rightarrow>
          if k = [] then Inr AnonymousUser
          else (case access_token k of
                  None \<Rightarrow> Inr AnonymousUser
                | Some None \<Rightarrow> Inl KeyError
                | Some (Some uid) \<Rightarrow>
                    (case find (\<lambda>u. user_id u = uid) users of
                       None \<Rightarrow> Inr AnonymousUser
                     | Some u \<Rightarrow> Inr (AuthUser u))))"

section \<open>Observations and sample data\<close>

text \<open>The effects a step from \<open>w\<close> to \<open>w'\<close> added to the trace.\<close>

definition new_effects :: "world \<Rightarrow> world \<Rightarrow> effect list" where
  "new_effects w w' = drop (length (trace w)) (trace w')"

text \<open>The handshake reached \<^verbatim>\<open>self.accept()\<close>: the session became active.\<close>

definition reached_active :: "consumer \<Rightarrow> world \<Rightarrow> world \<Rightarrow> bool" where
  "reached_active self w w' = (Accept (channel_name self) \<in> set (new_effects w w'))"

definition stored_status :: "world \<Rightarrow> int \<Rightarrow> string option" where
  "stored_status w k = map_option status (find (\<lambda>m. message_id m = k) (messages (storage w)))"

text \<open>
  Primary keys: no two rows of the message table share one, and the next key the table
  hands out is above all of them.
\<close>

definition keys_ok :: "db \<Rightarrow> bool" where
  "keys_ok d = (distinct (map message_id (messages d))
                \<and> list_all (\<lambda>m. message_id m < next_id d) (messages d))"

text \<open>The rows written by \<^verbatim>\<open>save\<close>, and the events broadcast, in order.\<close>

fun saved :: "effect \<Rightarrow> message option" where
  "saved (DbSave m) = Some m"
| "saved _ = None"

fun broadcast :: "effect \<Rightarrow> event option" where
  "broadcast (GroupSend g ev) = Some ev"
| "broadcast _ = None"

definition saves :: "effect list \<Rightarrow> message list" where
  "saves es = List.map_filter saved es"

definition broadcasts :: "effect list \<Rightarrow> event list" where
  "broadcasts es = List.map_filter broadcast es"

fun is_message_status :: "event \<Rightarrow> bool" where
  "is_message_status (MessageStatus mid st usr ts) = True"
| "is_message_status _ = False"

fun is_leave :: "event \<Rightarrow> bool" where
  "is_leave (ChatMessage mid msg usr mtype st ts) = (mtype = ''leave'')"
| "is_leave _ = False"

fun is_discard :: "effect \<Rightarrow> bool" where
  "is_discard (GroupDiscard g ch) = True"
| "is_discard _ = False"

text \<open>
  How the party that asked for an operation could notice that it failed: the call raises,
  or an error frame is written to the connection.
\<close>

fun is_error_to :: "string \<Rightarrow> effect \<Rightarrow> bool" where
  "is_error_to ch (Send c (ErrorF e)) = (c = ch)"
| "is_error_to ch _ = False"

definition observes_failure :: "consumer \<Rightarrow> exn + unit \<Rightarrow> effect list \<Rightarrow> bool" where
  "observes_failure self r es = (isl r \<or> list_ex (is_error_to (channel_name self)) es)"

text \<open>The order of the delivery states, and the stored status after each of a list of requests.\<close>

definition status_rank :: "string \<Rightarrow> nat" where
  "status_rank s =
     (if s = ''sending'' then 0 else if s = ''sent'' then 1
      else if s = ''delivered'' then 2 else if s = ''seen'' then 3 else 0)"

fun status_history :: "int \<Rightarrow> json \<Rightarrow> (consumer \<times> string) list \<Rightarrow> world \<Rightarrow> string option list" where
  "status_history k mid [] w = []"
| "status_history k mid (r # rs) w =
     (let w' = snd (update_message_status (fst r) mid (snd r) w)
      in stored_status w' k # status_history k mid rs w')"

text \<open>What one run of the body of \<^verbatim>\<open>disconnect\<close> does, for group \<open>g\<close>, user \<open>u\<close>, channel \<open>ch\<close> at time \<open>t\<close>.\<close>

definition teardown :: "string \<Rightarrow> any_user \<Rightarrow> string \<Rightarrow> int \<Rightarrow> effect list" where
  "teardown g u ch t =
     [GroupSend g (UserStatus (username_of u) (JStr ''offline'') t),
      GroupSend g (TypingStatus (username_of u) (JBool False) t),
      GroupSend g (ChatMessage None (JStr (username_of u @ '' left the chat''))
         (username_of u) ''leave'' None t),
      GroupDiscard g ch,
      Log INFO ''User {self.user.username} disconnected from room {self.room_id} with code: {close_code}'']"

text \<open>
  Write-then-publish, for the events \<open>ann\<close> takes to announce a status of a message:
  every such event that is broadcast has, earlier in the trace, a durable write (an insert
  or a save) that gives that message that status. \<open>message_status_event\<close> counts the
  \<^verbatim>\<open>message_status\<close> events only, \<open>status_event\<close> also a \<^verbatim>\<open>chat_message\<close> event that
  carries a message id and a status.
\<close>

fun message_status_event :: "db \<Rightarrow> event \<Rightarrow> (int \<times> string) option" where
  "message_status_event d (MessageStatus mid st usr ts) = map_option (\<lambda>k. (k, st)) (to_pk d mid)"
| "message_status_event d _ = None"

fun status_event :: "db \<Rightarrow> event \<Rightarrow> (int \<times> string) option" where
  "status_event d (ChatMessage (Some mid) msg usr mtype (Some st) ts) =
     map_option (\<lambda>k. (k, st)) (to_pk d mid)"
| "status_event d (MessageStatus mid st usr ts) = map_option (\<lambda>k. (k, st)) (to_pk d mid)"
| "status_event d _ = None"

fun writes :: "int \<times> string \<Rightarrow> effect \<Rightarrow> bool" where
  "writes ks (DbCreate m) = (ks = (message_id m, status m))"
| "writes ks (DbSave m) = (ks = (message_id m, status m))"
| "writes ks _ = False"

fun published_after_write :: "(event \<Rightarrow> (int \<times> string) option) \<Rightarrow> effect list \<Rightarrow> effect \<Rightarrow> bool" where
  "published_after_write ann before (GroupSend g ev) =
     (case ann ev of None \<Rightarrow> True | Some ks \<Rightarrow> list_ex (writes ks) before)"
| "published_after_write ann before _ = True"

fun write_then_publish :: "(event \<Rightarrow> (int \<times> string) option) \<Rightarrow> effect list \<Rightarrow> effect list \<Rightarrow> bool" where
  "write_then_publish ann before [] = True"
| "write_then_publish ann before (e # es) =
     (published_after_write ann before e \<and> write_then_publish ann (before @ [e]) es)"

text \<open>The frames written to channel \<open>ch\<close>, in order.\<close>

fun frame_to :: "string \<Rightarrow> effect \<Rightarrow> frame option" where
  "frame_to ch (Send c f) = (if c = ch then Some f else None)"
| "frame_to ch _ = None"

definition frames_to :: "string \<Rightarrow> effect list \<Rightarrow> frame list" where
  "frames_to ch es = List.map_filter (frame_to ch) es"

fun is_chat_message :: "event \<Rightarrow> bool" where
  "is_chat_message (ChatMessage mid msg usr mtype st ts) = (mtype = ''message'')"
| "is_chat_message _ = False"

text \<open>
  What the history loop of \<^verbatim>\<open>connect\<close> does for one message \<open>m\<close>, for the user \<open>u\<close> who
  joins on channel \<open>ch\<close> of group \<open>g\<close> at time \<open>t\<close>: the frame, and for a message of
  somebody else that is \<^verbatim>\<open>sent\<close> the save and the broadcast of \<^verbatim>\<open>delivered\<close>.
\<close>

definition owed :: "user \<Rightarrow> message \<Rightarrow> bool" where
  "owed u m = (user_id (sender m) \<noteq> user_id u \<and> status m = ''sent'')"

definition replay_step :: "string \<Rightarrow> user \<Rightarrow> string \<Rightarrow> int \<Rightarrow> message \<Rightarrow> effect list" where
  "replay_step g u ch t m =
     Send ch (history_frame m) #
       (if owed u m
        then [DbSave (m\<lparr>status := ''delivered''\<rparr>),
              GroupSend g (MessageStatus (JInt (message_id m)) ''delivered'' (username u) t),
              Log INFO ''Message {message_id} status updated to {status} by {self.user.username}'']
        else [])"

text \<open>The row \<^verbatim>\<open>Message.objects.create\<close> inserts for content \<open>c\<close> sent by \<open>u\<close> to room \<open>r\<close>.\<close>

definition created :: "world \<Rightarrow> json \<Rightarrow> user \<Rightarrow> chat_room \<Rightarrow> message" where
  "created w c u r =
     \<lparr>message_id = next_id (storage w), content = text_of (storage w) c, sender = u,
      room = room_pk r, timestamp = now w, status = ''sending''\<rparr>"

definition alice :: user where "alice = \<lparr>user_id = 1, username = ''alice''\<rparr>"
definition bob :: user where "bob = \<lparr>user_id = 2, username = ''bob''\<rparr>"
definition carol :: user where "carol = \<lparr>user_id = 3, username = ''carol''\<rparr>"
definition dave :: user where "dave = \<lparr>user_id = 4, username = ''dave''\<rparr>"

definition lobby :: chat_room where
  "lobby = \<lparr>room_pk = 1, members = [1, 2, 3]\<rparr>"

definition msg1 :: message where
  "msg1 = \<lparr>message_id = 1, content = ''hi'', sender = alice, room = 1, timestamp = 10,
           status = ''delivered''\<rparr>"

definition db0 :: db where
  "db0 = \<lparr>available = True, chat_rooms = [lobby], messages = [msg1], next_id = 2,
          coerce_pk = (\<lambda>_. None), coerce_text = (\<lambda>_. []),
          order_newest = (\<lambda>xs. rev (sort_key timestamp xs))\<rparr>"

definition w0 :: world where
  "w0 = \<lparr>storage = db0, groups = (\<lambda>_. {}), now = 100, trace = []\<rparr>"

definition receipt1 :: json where
  "receipt1 = JObj [(''type'', JStr ''read_receipt''), (''message_id'', JInt 1)]"

definition backlog :: "message list" where
  "backlog =
     [\<lparr>message_id = 1, content = ''one'', sender = alice, room = 1, timestamp = 10, status = ''sent''\<rparr>,
      \<lparr>message_id = 2, content = ''elsewhere'', sender = carol, room = 2, timestamp = 15, status = ''sent''\<rparr>,
      \<lparr>message_id = 3, content = ''three'', sender = alice, room = 1, timestamp = 30, status = ''delivered''\<rparr>,
      \<lparr>message_id = 4, content = ''two'', sender = bob, room = 1, timestamp = 20, status = ''sent''\<rparr>]"

definition tied :: "message list" where
  "tied =
     [\<lparr>message_id = 1, content = ''a'', sender = alice, room = 1, timestamp = 10, status = ''sent''\<rparr>,
      \<lparr>message_id = 2, content = ''b'', sender = alice, room = 1, timestamp = 10, status = ''sent''\<rparr>,
      \<lparr>message_id = 3, content = ''c'', sender = alice, room = 1, timestamp = 10, status = ''sent''\<rparr>,
      \<lparr>message_id = 4, content = ''d'', sender = alice, room = 1, timestamp = 5, status = ''sent''\<rparr>]"

definition old_message :: "nat \<Rightarrow> message" where
  "old_message i =
     \<lparr>message_id = int i, content = ''old'', sender = alice, room = 1, timestamp = int i,
      status = ''sent''\<rparr>"

definition with_messages :: "message list \<Rightarrow> world" where
  "with_messages ms = w0\<lparr>storage := db0\<lparr>messages := ms\<rparr>\<rparr>"

text \<open>A consumer before \<^verbatim>\<open>connect\<close>, and one whose \<^verbatim>\<open>connect\<close> to the lobby succeeded.\<close>

definition arriving :: "any_user \<Rightarrow> nat \<Rightarrow> string \<Rightarrow> consumer" where
  "arriving u rid ch =
     \<lparr>channel_name = ch, scope_user = u, scope_room_id = rid, self_user = None,
      self_room_id = None, self_room = None, self_room_group_name = None\<rparr>"

definition session :: "user \<Rightarrow> string \<Rightarrow> consumer" where
  "session u ch =
     \<lparr>channel_name = ch, scope_user = AuthUser u, scope_room_id = 1,
      self_user = Some (AuthUser u), self_room_id = Some 1, self_room = Some lobby,
      self_room_group_name = Some ''chat_1''\<rparr>"

section \<open>Basic facts\<close>

lemmas io_defs = returns_def raises_def io_bind_def try_except_def emit_def attr_def
  timezone_now_def log_def group_send_def group_add_def group_discard_def send_def
  accept_def close_def

lemmas sample_defs = alice_def bob_def carol_def dave_def lobby_def msg1_def db0_def w0_def
  arriving_def session_def receipt1_def

lemma new_effects_append [simp]: "new_effects w (w\<lparr>trace := trace w @ es\<rparr>) = es"
  by (simp add: new_effects_def)

lemma new_effects_append' [simp]:
  "new_effects w (w\<lparr>storage := d, trace := trace w @ es\<rparr>) = es"
  by (simp add: new_effects_def)

lemma new_effects_same [simp]: "new_effects w w = []"
  by (simp add: new_effects_def)

lemma to_pk_messages [simp]: "to_pk (d\<lparr>messages := xs\<rparr>) key = to_pk d key"
  by (cases key) (simp_all add: to_pk_def)

lemma to_pk_JInt [simp]: "to_pk d (JInt i) = Some i"
  by (simp add: to_pk_def)

lemma ums_found:
  assumes "available (storage w)"
      and "to_pk (storage w) mid = Some k"
      and "find (\<lambda>m. message_id m = k) (messages (storage w)) = Some m"
      and "self_room_group_name self = Some g"
      and "self_user self = Some u"
  shows "update_message_status self mid st w =
           (Inr (), w\<lparr>storage := (storage w)\<lparr>messages :=
                         save_row (m\<lparr>status := st\<rparr>) (messages (storage w))\<rparr>,
                       trace := trace w @
                         [DbSave (m\<lparr>status := st\<rparr>),
                          GroupSend g (MessageStatus mid st (username_of u) (now w)),
                          Log INFO ''Message {message_id} status updated to {status} by {self.user.username}'']\<rparr>)"
  using assms
  by (simp add: update_message_status_def Message_objects_get_def message_save_def io_defs)

lemma ums_failed:
  assumes "fst (Message_objects_get mid w) = Inl e"
  shows "update_message_status self mid st w =
           (Inr (), w\<lparr>trace := trace w @
              [Log ERROR (if e = MessageDoesNotExist then ''Message {message_id} not found''
                          else ''Error updating message status: {str(e)}'')]\<rparr>)"
  using assms
  by (auto simp add: update_message_status_def Message_objects_get_def io_defs
      split: if_splits option.splits)

lemma ums_returns: "fst (update_message_status self mid st w) = Inr ()"
  by (auto simp add: update_message_status_def Message_objects_get_def message_save_def io_defs
      split: if_splits option.splits prod.splits sum.splits)

section \<open>Rejected handshakes\<close>

text \<open>
  C7. \<^verbatim>\<open>connect\<close> closes without accepting in three cases, each with its own close code:
  an anonymous user (4001), a room that does not exist (4004), a user who is not a member
  of the room (4002). Nothing but a warning and the close happens, so the session never
  becomes active and the channel joins no group. A missing, empty or invalid token, and a
  token of a user that no longer exists, give the anonymous user.
\<close>

theorem connect_rejected:
  "(scope_user self = AnonymousUser \<longrightarrow>
      snd (connect self w) = w\<lparr>trace := trace w @
        [Log WARNING ''Unauthenticated user tried to connect'', Close (channel_name self) 4001]\<rparr>
      \<and> \<not> reached_active self w (snd (connect self w)))
   \<and> (scope_user self = AuthUser u \<and> available (storage w)
        \<and> find (\<lambda>r. room_pk r = scope_room_id self) (chat_rooms (storage w)) = None \<longrightarrow>
      snd (connect self w) = w\<lparr>trace := trace w @
        [Log WARNING ''Attempted to connect to non-existent room {self.room_id}'',
         Close (channel_name self) 4004]\<rparr>
      \<and> \<not> reached_active self w (snd (connect self w)))
   \<and> (scope_user self = AuthUser u \<and> available (storage w)
        \<and> find (\<lambda>r. room_pk r = scope_room_id self) (chat_rooms (storage w)) = Some r
        \<and> user_id u \<notin> set (members r) \<longrightarrow>
      snd (connect self w) = w\<lparr>trace := trace w @
        [Log WARNING ''User {self.user.username} tried to join room {self.room_id} without membership'',
         Close (channel_name self) 4002]\<rparr>
      \<and> \<not> reached_active self w (snd (connect self w)))
   \<and> (token_key = None \<or> token_key = Some [] \<or> (\<exists>k. token_key = Some k \<and>
         (access_token k = None \<or>
          (\<exists>uid. access_token k = Some (Some uid) \<and> find (\<lambda>x. user_id x = uid) users = None)))
       \<longrightarrow> get_user_from_token access_token users token_key = Inr AnonymousUser)
   \<and> (4001::nat) \<noteq> 4004 \<and> (4001::nat) \<noteq> 4002 \<and> (4004::nat) \<noteq> 4002"
  by (auto simp add: connect_def room_missing_def connect_failed_def ChatRoom_objects_get_def
      members_filter_exists_def io_defs Let_def reached_active_def get_user_from_token_def)

theorem connect_rejected_witness:
  "snd (connect (arriving AnonymousUser 1 ''c1'') w0) = w0\<lparr>trace :=
      [Log WARNING ''Unauthenticated user tried to connect'', Close ''c1'' 4001]\<rparr>
   \<and> snd (connect (arriving (AuthUser bob) 9 ''c2'') w0) = w0\<lparr>trace :=
      [Log WARNING ''Attempted to connect to non-existent room {self.room_id}'', Close ''c2'' 4004]\<rparr>
   \<and> snd (connect (arriving (AuthUser dave) 1 ''c3'') w0) = w0\<lparr>trace :=
      [Log WARNING ''User {self.user.username} tried to join room {self.room_id} without membership'',
       Close ''c3'' 4002]\<rparr>
   \<and> get_user_from_token (\<lambda>_. None) [alice] (Some ''stale'') = Inr AnonymousUser"
  using connect_rejected [where self = "arriving AnonymousUser 1 ''c1''" and w = w0]
    connect_rejected [where self = "arriving (AuthUser bob) 9 ''c2''" and u = bob and w = w0]
    connect_rejected [where self = "arriving (AuthUser dave) 1 ''c3''" and u = dave and w = w0
      and r = lobby]
    connect_rejected [where token_key = "Some ''stale''" and access_token = "\<lambda>_. None"
      and users = "[alice]"]
  by (simp add: sample_defs)

section \<open>Frames that are dropped\<close>

text \<open>
  C10. A frame of type \<^verbatim>\<open>status\<close> whose status is none of \<^verbatim>\<open>online\<close>, \<^verbatim>\<open>offline\<close> and
  \<^verbatim>\<open>away\<close> (or is missing) changes nothing: no broadcast, no frame to the sender, no log
  record, no close; storage, groups and trace are as before.
\<close>

theorem invalid_status_frame_dropped:
  assumes "py_get kvs ''type'' (JStr ''message'') = JStr ''status''"
      and "py_get kvs ''status'' JNull \<notin> set [JStr ''online'', JStr ''offline'', JStr ''away'']"
  shows "receive self (Some (JObj kvs)) w = w"
  using assms
  by (simp add: receive_def receive_body_def json_loads_def dict_get_def io_defs)

theorem invalid_status_frame_dropped_witness:
  "receive (session bob ''c2'') (Some (JObj [(''type'', JStr ''status''), (''status'', JStr ''busy'')])) w0 = w0"
  using invalid_status_frame_dropped
    [of "[(''type'', JStr ''status''), (''status'', JStr ''busy'')]" "session bob ''c2''" w0]
  by (simp add: py_get_def)

section \<open>Status transitions\<close>

lemma find_save_row:
  "find (\<lambda>x. message_id x = k) xs = Some m \<Longrightarrow> message_id m' = k \<Longrightarrow>
   find (\<lambda>x. message_id x = k) (save_row m' xs) = Some m'"
  by (induction xs) (auto simp add: save_row_def split: if_splits)

lemma find_save_row_other:
  "message_id m' \<noteq> k \<Longrightarrow>
   find (\<lambda>x. message_id x = k) (save_row m' xs) = find (\<lambda>x. message_id x = k) xs"
  by (induction xs) (auto simp add: save_row_def)

lemma find_key: "find (\<lambda>x. message_id x = k) xs = Some m \<Longrightarrow> message_id m = k \<and> m \<in> set xs"
  by (induction xs) (auto split: if_splits)

lemma save_row_absent: "message_id m \<notin> message_id ` set xs \<Longrightarrow> save_row m xs = xs"
  by (induction xs) (auto simp add: save_row_def)

lemma save_row_same:
  "distinct (map message_id xs) \<Longrightarrow> m \<in> set xs \<Longrightarrow> save_row m xs = xs"
proof (induction xs)
  case Nil
  then show ?case by simp
next
  case (Cons x xs)
  show ?case
  proof (cases "m = x")
    case True
    with Cons.prems have "message_id m \<notin> message_id ` set xs" by simp
    then have "save_row m xs = xs" by (rule save_row_absent)
    with True show ?thesis by (simp add: save_row_def)
  next
    case False
    with Cons.prems have "m \<in> set xs" and "message_id x \<noteq> message_id m"
      by (auto simp add: rev_image_eqI)
    with Cons show ?thesis by (simp add: save_row_def)
  qed
qed

lemma find_distinct:
  "distinct (map message_id xs) \<Longrightarrow> m \<in> set xs \<Longrightarrow>
   find (\<lambda>x. message_id x = message_id m) xs = Some m"
  by (induction xs) (auto simp add: rev_image_eqI)

text \<open>Whatever the attributes of the consumer, a message that is found is rewritten.\<close>

lemma ums_storage:
  assumes "available (storage w)"
      and "to_pk (storage w) mid = Some k"
      and "find (\<lambda>m. message_id m = k) (messages (storage w)) = Some m"
  shows "storage (snd (update_message_status self mid st w)) =
           (storage w)\<lparr>messages := save_row (m\<lparr>status := st\<rparr>) (messages (storage w))\<rparr>"
  using assms
  by (auto simp add: update_message_status_def Message_objects_get_def message_save_def io_defs
      split: option.splits)

text \<open>
  C6 (as amended). When the message cannot be loaded (storage unavailable, a key that does
  not convert, no row of that key) \<^verbatim>\<open>update_message_status\<close> writes nothing and
  broadcasts nothing: it logs one error and returns normally. A read receipt that names
  such a message therefore leaves storage and groups as they were, and nobody, the sender
  of the receipt included, is sent a frame.
\<close>

theorem failed_transition_only_logged:
  assumes "fst (Message_objects_get mid w) = Inl e"
  shows "update_message_status self mid st w =
           (Inr (), w\<lparr>trace := trace w @
              [Log ERROR (if e = MessageDoesNotExist then ''Message {message_id} not found''
                          else ''Error updating message status: {str(e)}'')]\<rparr>)
         \<and> (py_get kvs ''type'' (JStr ''message'') = JStr ''read_receipt''
              \<and> py_get kvs ''message_id'' JNull = mid \<and> truthy mid \<longrightarrow>
            receive self (Some (JObj kvs)) w = w\<lparr>trace := trace w @
              [Log ERROR (if e = MessageDoesNotExist then ''Message {message_id} not found''
                          else ''Error updating message status: {str(e)}'')]\<rparr>)"
  using ums_failed [OF assms, of self]
  by (simp add: receive_def receive_body_def json_loads_def dict_get_def
      returns_def io_bind_def try_except_def)

theorem failed_transition_only_logged_witness:
  "fst (Message_objects_get (JInt 99) w0) = Inl MessageDoesNotExist
   \<and> update_message_status (session bob ''c2'') (JInt 99) ''seen'' w0 =
       (Inr (), w0\<lparr>trace := [Log ERROR ''Message {message_id} not found'']\<rparr>)
   \<and> receive (session bob ''c2'')
        (Some (JObj [(''type'', JStr ''read_receipt''), (''message_id'', JInt 99)])) w0 =
       w0\<lparr>trace := [Log ERROR ''Message {message_id} not found'']\<rparr>
   \<and> fst (Message_objects_get (JInt 1) (w0\<lparr>storage := db0\<lparr>available := False\<rparr>\<rparr>)) =
       Inl OperationalError
   \<and> update_message_status (session bob ''c2'') (JInt 1) ''seen''
        (w0\<lparr>storage := db0\<lparr>available := False\<rparr>\<rparr>) =
       (Inr (), w0\<lparr>storage := db0\<lparr>available := False\<rparr>,
                   trace := [Log ERROR ''Error updating message status: {str(e)}'']\<rparr>)"
proof -
  have h: "fst (Message_objects_get (JInt 99) w0) = Inl MessageDoesNotExist"
    by (simp add: Message_objects_get_def to_pk_def sample_defs)
  have d: "fst (Message_objects_get (JInt 1) (w0\<lparr>storage := db0\<lparr>available := False\<rparr>\<rparr>)) =
       Inl OperationalError"
    by (simp add: Message_objects_get_def)
  show ?thesis
    using h d failed_transition_only_logged [OF h, where self = "session bob ''c2''"
        and st = "''seen''"
        and kvs = "[(''type'', JStr ''read_receipt''), (''message_id'', JInt 99)]"]
      failed_transition_only_logged [OF d, where self = "session bob ''c2''"
        and st = "''seen''" and kvs = "[]"]
    by (simp add: py_get_def w0_def)
qed

text \<open>
  C6, the claim as stated: a read receipt for a message that does not exist. The call
  returns normally and the only effect is a log record, so the connection that sent the
  receipt observes no failure.
\<close>

theorem failure_not_observed_counterexample:
  "\<not> observes_failure (session bob ''c2'')
        (fst (update_message_status (session bob ''c2'') (JInt 99) ''seen'' w0))
        (new_effects w0 (snd (update_message_status (session bob ''c2'') (JInt 99) ''seen'' w0)))
   \<and> new_effects w0 (receive (session bob ''c2'')
        (Some (JObj [(''type'', JStr ''read_receipt''), (''message_id'', JInt 99)])) w0) =
       [Log ERROR ''Message {message_id} not found'']"
proof -
  have h: "fst (Message_objects_get (JInt 99) w0) = Inl MessageDoesNotExist"
    by (simp add: Message_objects_get_def to_pk_def sample_defs)
  show ?thesis
    by (simp add: ums_failed [OF h] observes_failure_def receive_def receive_body_def
        json_loads_def dict_get_def py_get_def returns_def io_bind_def try_except_def)
qed

text \<open>
  C4 (as amended). A \<^verbatim>\<open>seen\<close> request for a message that is already \<^verbatim>\<open>seen\<close> is not an
  error and leaves the stored rows as they are, but it is carried out like any other
  request: the row is saved again and the status event is broadcast again. The same holds
  for the read receipt frame that asks for it.
\<close>

theorem seen_again_saves_and_broadcasts:
  assumes "available (storage w)"
      and "distinct (map message_id (messages (storage w)))"
      and "to_pk (storage w) mid = Some k"
      and "find (\<lambda>m. message_id m = k) (messages (storage w)) = Some m"
      and "status m = ''seen''"
      and "self_room_group_name self = Some g"
      and "self_user self = Some u"
  shows "update_message_status self mid ''seen'' w =
           (Inr (), w\<lparr>trace := trace w @
              [DbSave m, GroupSend g (MessageStatus mid ''seen'' (username_of u) (now w)),
               Log INFO ''Message {message_id} status updated to {status} by {self.user.username}'']\<rparr>)
         \<and> (py_get kvs ''type'' (JStr ''message'') = JStr ''read_receipt''
              \<and> py_get kvs ''message_id'' JNull = mid \<and> truthy mid \<longrightarrow>
            receive self (Some (JObj kvs)) w = w\<lparr>trace := trace w @
              [DbSave m, GroupSend g (MessageStatus mid ''seen'' (username_of u) (now w)),
               Log INFO ''Message {message_id} status updated to {status} by {self.user.username}'']\<rparr>)"
proof -
  have same: "m\<lparr>status := ''seen''\<rparr> = m"
    using assms(5) by simp
  have "m \<in> set (messages (storage w))"
    using find_key [OF assms(4)] by simp
  then have rows: "save_row m (messages (storage w)) = messages (storage w)"
    using assms(2) by (rule save_row_same [rotated])
  have run: "update_message_status self mid ''seen'' w =
           (Inr (), w\<lparr>trace := trace w @
              [DbSave m, GroupSend g (MessageStatus mid ''seen'' (username_of u) (now w)),
               Log INFO ''Message {message_id} status updated to {status} by {self.user.username}'']\<rparr>)"
    using ums_found [OF assms(1) assms(3) assms(4) assms(6) assms(7), of "''seen''"]
    by (simp add: same rows)
  show ?thesis
    using run
    by (simp add: receive_def receive_body_def json_loads_def dict_get_def
        returns_def io_bind_def try_except_def)
qed

theorem seen_again_saves_and_broadcasts_witness:
  "receive (session bob ''c2'') (Some receipt1)
     (w0\<lparr>storage := db0\<lparr>messages := [msg1\<lparr>status := ''seen''\<rparr>]\<rparr>\<rparr>) =
   w0\<lparr>storage := db0\<lparr>messages := [msg1\<lparr>status := ''seen''\<rparr>]\<rparr>,
      trace := [DbSave (msg1\<lparr>status := ''seen''\<rparr>),
                GroupSend ''chat_1'' (MessageStatus (JInt 1) ''seen'' ''bob'' 100),
                Log INFO ''Message {message_id} status updated to {status} by {self.user.username}'']\<rparr>"
  using seen_again_saves_and_broadcasts
    [where w = "w0\<lparr>storage := db0\<lparr>messages := [msg1\<lparr>status := ''seen''\<rparr>]\<rparr>\<rparr>"
       and mid = "JInt 1" and k = 1 and m = "msg1\<lparr>status := ''seen''\<rparr>"
       and self = "session bob ''c2''" and g = "''chat_1''" and u = "AuthUser bob"
       and kvs = "[(''type'', JStr ''read_receipt''), (''message_id'', JInt 1)]"]
  by (simp add: sample_defs to_pk_def py_get_def username_of_def)

text \<open>
  C4, the claim as stated: two read receipts for message 1. After the first the stored
  status is \<^verbatim>\<open>seen\<close>; the second saves the row once more, and two status events are
  broadcast over the two requests.
\<close>

theorem seen_twice_counterexample:
  "stored_status (receive (session bob ''c2'') (Some receipt1) w0) 1 = Some ''seen''
   \<and> length (saves (new_effects (receive (session bob ''c2'') (Some receipt1) w0)
        (receive (session bob ''c2'') (Some receipt1)
           (receive (session bob ''c2'') (Some receipt1) w0)))) = 1
   \<and> length (filter is_message_status (broadcasts (new_effects w0
        (receive (session bob ''c2'') (Some receipt1)
           (receive (session bob ''c2'') (Some receipt1) w0))))) = 2"
  by (simp add: receive_def receive_body_def json_loads_def dict_get_def py_get_def
      update_message_status_def Message_objects_get_def message_save_def to_pk_def
      save_row_def io_defs sample_defs stored_status_def new_effects_def saves_def
      broadcasts_def)

text \<open>
  C1 (as amended). \<^verbatim>\<open>update_message_status\<close> stores the status it is asked for, whatever
  the stored one is: along any list of requests for a message that exists, made by any
  consumers, the stored status after each request is the status of that request. The
  stored status is therefore non-decreasing exactly when the requests arrive in
  non-decreasing order.
\<close>

theorem last_request_wins:
  assumes "available (storage w)"
      and "to_pk (storage w) mid = Some k"
      and "find (\<lambda>m. message_id m = k) (messages (storage w)) = Some m"
  shows "status_history k mid rs w = map (\<lambda>r. Some (snd r)) rs"
  using assms
proof (induction rs arbitrary: w m)
  case Nil
  then show ?case by simp
next
  case (Cons r rs)
  let ?w' = "snd (update_message_status (fst r) mid (snd r) w)"
  let ?m' = "m\<lparr>status := snd r\<rparr>"
  have st: "storage ?w' = (storage w)\<lparr>messages := save_row ?m' (messages (storage w))\<rparr>"
    using Cons.prems by (rule ums_storage)
  have key: "message_id ?m' = k"
    using find_key [OF Cons.prems(3)] by simp
  have found: "find (\<lambda>x. message_id x = k) (messages (storage ?w')) = Some ?m'"
    using find_save_row [OF Cons.prems(3) key] by (simp add: st)
  have av: "available (storage ?w')"
    using Cons.prems(1) by (simp add: st)
  have pk: "to_pk (storage ?w') mid = Some k"
    using Cons.prems(2) by (simp add: st)
  have "status_history k mid rs ?w' = map (\<lambda>r. Some (snd r)) rs"
    using av pk found by (rule Cons.IH)
  moreover have "stored_status ?w' k = Some (snd r)"
    by (simp add: stored_status_def found)
  ultimately show ?case
    by (simp add: Let_def)
qed

theorem last_request_wins_witness:
  "status_history 1 (JInt 1)
     [(session bob ''c2'', ''seen''), (session carol ''c3'', ''delivered'')] w0 =
   [Some ''seen'', Some ''delivered'']"
  using last_request_wins [where w = w0 and mid = "JInt 1" and k = 1 and m = msg1
      and rs = "[(session bob ''c2'', ''seen''), (session carol ''c3'', ''delivered'')]"]
  by (simp add: sample_defs to_pk_def)

text \<open>
  C1, the claim as stated: bob's read receipt marks message 1 \<^verbatim>\<open>seen\<close>; carol's consumer
  then handles the chat message event of message 1 and asks for \<^verbatim>\<open>delivered\<close>, which is
  stored: the status moves back.
\<close>

theorem status_regresses_counterexample:
  "stored_status (receive (session bob ''c2'') (Some receipt1) w0) 1 = Some ''seen''
   \<and> stored_status
        (dispatch (session carol ''c3'')
           (ChatMessage (Some (JInt 1)) (JStr ''hi'') ''alice'' ''message'' (Some ''sent'') 10)
           (receive (session bob ''c2'') (Some receipt1) w0)) 1 = Some ''delivered''
   \<and> status_rank ''delivered'' < status_rank ''seen''"
  by (simp add: receive_def receive_body_def json_loads_def dict_get_def py_get_def
      dispatch_def chat_message_def username_of_def
      update_message_status_def Message_objects_get_def message_save_def to_pk_def
      save_row_def io_defs sample_defs stored_status_def status_rank_def)

section \<open>Disconnect\<close>

text \<open>
  C5 (as amended). For a consumer that has its room group and user, every run of
  \<^verbatim>\<open>disconnect\<close> performs, in this order, the offline broadcast, the typing-false
  broadcast, the leave broadcast and the removal from the room group (then a log record).
  Nothing records that the teardown already ran: a second run does all of it again.
\<close>

theorem disconnect_sequence:
  assumes "self_room_group_name self = Some g"
      and "self_user self = Some u"
      and "self_room_id self = Some rid"
  shows "disconnect self code w =
           w\<lparr>groups := (groups w)(g := groups w g - {channel_name self}),
             trace := trace w @ teardown g u (channel_name self) (now w)\<rparr>
         \<and> new_effects w (disconnect self code' (disconnect self code w)) =
             teardown g u (channel_name self) (now w) @ teardown g u (channel_name self) (now w)"
proof -
  have one: "\<And>c v. disconnect self c v =
           v\<lparr>groups := (groups v)(g := groups v g - {channel_name self}),
             trace := trace v @ teardown g u (channel_name self) (now v)\<rparr>"
    using assms
    by (simp add: disconnect_def update_user_status_def update_typing_status_def io_defs
        teardown_def)
  show ?thesis
    by (simp add: one new_effects_def)
qed

theorem disconnect_sequence_witness:
  "disconnect (session bob ''c2'') 1000 (w0\<lparr>groups := (\<lambda>_. {''c1'', ''c2''})\<rparr>) =
     w0\<lparr>groups := (\<lambda>_. {''c1'', ''c2''})(''chat_1'' := {''c1''}),
        trace := [GroupSend ''chat_1'' (UserStatus ''bob'' (JStr ''offline'') 100),
                  GroupSend ''chat_1'' (TypingStatus ''bob'' (JBool False) 100),
                  GroupSend ''chat_1'' (ChatMessage None (JStr ''bob left the chat'')
                     ''bob'' ''leave'' None 100),
                  GroupDiscard ''chat_1'' ''c2'',
                  Log INFO ''User {self.user.username} disconnected from room {self.room_id} with code: {close_code}'']\<rparr>"
  using disconnect_sequence [where self = "session bob ''c2''" and g = "''chat_1''"
      and u = "AuthUser bob" and rid = 1 and code = 1000
      and w = "w0\<lparr>groups := (\<lambda>_. {''c1'', ''c2''})\<rparr>"]
  by (simp add: sample_defs teardown_def username_of_def insert_Diff_if)

text \<open>
  C5, the claim as stated: the teardown of one connection invoked twice broadcasts the
  leave event twice and removes the channel from the group twice.
\<close>

theorem disconnect_twice_counterexample:
  "length (filter is_leave (broadcasts (new_effects w0
      (disconnect (session bob ''c2'') 1006 (disconnect (session bob ''c2'') 1000 w0))))) = 2
   \<and> length (filter is_discard (new_effects w0
      (disconnect (session bob ''c2'') 1006 (disconnect (session bob ''c2'') 1000 w0)))) = 2"
  by (simp add: disconnect_def update_user_status_def update_typing_status_def io_defs
      sample_defs new_effects_def broadcasts_def)

section \<open>New messages\<close>

lemma find_append:
  "find P (xs @ ys) = (case find P xs of None \<Rightarrow> find P ys | Some x \<Rightarrow> Some x)"
  by (induction xs) auto

lemma find_fresh:
  "list_all (\<lambda>m. message_id m < k) xs \<Longrightarrow> find (\<lambda>m. message_id m = k) xs = None"
  by (induction xs) auto

lemma save_row_fresh:
  "list_all (\<lambda>m. message_id m < message_id m') xs \<Longrightarrow> save_row m' xs = xs"
  by (induction xs) (auto simp add: save_row_def)

lemma save_row_keys: "map message_id (save_row m xs) = map message_id xs"
  by (induction xs) (simp_all add: save_row_def)

text \<open>The primary key discipline is kept by a save of a loaded row and by an insert.\<close>

lemma keys_ok_save:
  assumes "keys_ok d"
  shows "keys_ok (d\<lparr>messages := save_row m (messages d)\<rparr>)"
proof -
  have img: "message_id ` set (save_row m (messages d)) = message_id ` set (messages d)"
    using arg_cong [OF save_row_keys, of set m "messages d"] by simp
  have "\<forall>x \<in> set (save_row m (messages d)). message_id x < next_id d"
  proof
    fix x
    assume "x \<in> set (save_row m (messages d))"
    then have "message_id x \<in> message_id ` set (messages d)"
      using img by blast
    then show "message_id x < next_id d"
      using assms by (auto simp add: keys_ok_def list_all_iff)
  qed
  then show ?thesis
    using assms by (simp add: keys_ok_def save_row_keys list_all_iff)
qed

lemma keys_ok_insert:
  assumes "keys_ok d" and "message_id m = next_id d"
  shows "keys_ok (d\<lparr>messages := messages d @ [m], next_id := next_id d + 1\<rparr>)"
  using assms by (auto simp add: keys_ok_def list_all_iff)

text \<open>
  A frame that is an object, whose type is none of the three special ones and whose
  message is not null, on an active session with reachable storage: the whole run.
\<close>

lemma receive_new_message:
  assumes "py_get kvs ''type'' (JStr ''message'') \<notin>
             set [JStr ''status'', JStr ''typing'', JStr ''read_receipt'']"
      and "py_get kvs ''message'' (JStr []) \<noteq> JNull"
      and "self_user self = Some (AuthUser u)"
      and "self_room_id self = Some rid"
      and "self_room self = Some r"
      and "self_room_group_name self = Some g"
      and "available (storage w)"
      and "keys_ok (storage w)"
  shows "receive self (Some (JObj kvs)) w =
     w\<lparr>storage := (storage w)\<lparr>
          messages := messages (storage w) @
            [(created w (py_get kvs ''message'' (JStr [])) u r)\<lparr>status := ''sent''\<rparr>],
          next_id := next_id (storage w) + 1\<rparr>,
       trace := trace w @
         [Log INFO ''Received message from {self.user.username} in room {self.room_id}: {message_content}'',
          GroupSend g (TypingStatus (username u) (JBool False) (now w)),
          DbCreate (created w (py_get kvs ''message'' (JStr [])) u r),
          GroupSend g (ChatMessage (Some (JInt (next_id (storage w))))
             (py_get kvs ''message'' (JStr [])) (username u) ''message'' (Some ''sent'') (now w)),
          DbSave ((created w (py_get kvs ''message'' (JStr [])) u r)\<lparr>status := ''sent''\<rparr>),
          GroupSend g (MessageStatus (JInt (next_id (storage w))) ''sent'' (username u) (now w)),
          Log INFO ''Message {message_id} status updated to {status} by {self.user.username}'']\<rparr>"
proof -
  have fresh: "list_all (\<lambda>m. message_id m < next_id (storage w)) (messages (storage w))"
    using assms(8) by (simp add: keys_ok_def)
  have none: "find (\<lambda>m. message_id m = next_id (storage w)) (messages (storage w)) = None"
    using fresh by (rule find_fresh)
  have rows: "save_row ((created w (py_get kvs ''message'' (JStr [])) u r)\<lparr>status := ''sent''\<rparr>)
                (messages (storage w)) = messages (storage w)"
    using fresh by (intro save_row_fresh) (simp add: created_def)
  show ?thesis
    using assms(1-7) none rows
    by (simp add: receive_def receive_body_def new_message_def json_loads_def dict_get_def
        update_typing_status_def Message_objects_create_def update_message_status_def
        Message_objects_get_def message_save_def io_defs username_of_def created_def
        find_append save_row_def Let_def)
qed

text \<open>
  C2 (as amended). Every \<^verbatim>\<open>message_status\<close> event is broadcast after the save of the status
  it announces: this holds for every call of \<^verbatim>\<open>update_message_status\<close>, whatever its
  arguments. For a new message the row is inserted (with status \<^verbatim>\<open>sending\<close>) before the
  \<^verbatim>\<open>chat_message\<close> event is broadcast, but that event already carries the status \<^verbatim>\<open>sent\<close>,
  which is saved only afterwards: counting it as a status event, the order is publish
  then write.
\<close>

theorem status_saved_before_broadcast:
  "write_then_publish (message_status_event (storage w)) []
      (new_effects w (snd (update_message_status self mid st w)))
   \<and> (py_get kvs ''type'' (JStr ''message'') \<notin>
          set [JStr ''status'', JStr ''typing'', JStr ''read_receipt'']
        \<and> py_get kvs ''message'' (JStr []) \<noteq> JNull
        \<and> self_user self = Some (AuthUser u) \<and> self_room_id self = Some rid
        \<and> self_room self = Some r \<and> self_room_group_name self = Some g
        \<and> available (storage w) \<and> keys_ok (storage w) \<longrightarrow>
      new_effects w (receive self (Some (JObj kvs)) w) =
        [Log INFO ''Received message from {self.user.username} in room {self.room_id}: {message_content}'',
         GroupSend g (TypingStatus (username u) (JBool False) (now w)),
         DbCreate (created w (py_get kvs ''message'' (JStr [])) u r),
         GroupSend g (ChatMessage (Some (JInt (next_id (storage w))))
            (py_get kvs ''message'' (JStr [])) (username u) ''message'' (Some ''sent'') (now w)),
         DbSave ((created w (py_get kvs ''message'' (JStr [])) u r)\<lparr>status := ''sent''\<rparr>),
         GroupSend g (MessageStatus (JInt (next_id (storage w))) ''sent'' (username u) (now w)),
         Log INFO ''Message {message_id} status updated to {status} by {self.user.username}'']
      \<and> write_then_publish (message_status_event (storage w)) []
            (new_effects w (receive self (Some (JObj kvs)) w))
      \<and> \<not> write_then_publish (status_event (storage w)) []
            (new_effects w (receive self (Some (JObj kvs)) w)))"
proof -
  have a: "write_then_publish (message_status_event (storage w)) []
      (new_effects w (snd (update_message_status self mid st w)))"
  proof (cases "Message_objects_get mid w")
    case (Pair res w1)
    show ?thesis
    proof (cases res)
      case (Inl e)
      with Pair have "fst (Message_objects_get mid w) = Inl e" by simp
      then show ?thesis by (simp add: ums_failed)
    next
      case (Inr m)
      with Pair have got: "Message_objects_get mid w = (Inr m, w1)" by simp
      then obtain k where av: "available (storage w)" and pk: "to_pk (storage w) mid = Some k"
        and found: "find (\<lambda>x. message_id x = k) (messages (storage w)) = Some m"
        by (auto simp add: Message_objects_get_def split: if_splits option.splits)
      have key: "message_id m = k" using find_key [OF found] by simp
      show ?thesis
        using av pk found key
        by (cases "self_room_group_name self"; cases "self_user self")
           (simp_all add: update_message_status_def Message_objects_get_def message_save_def
              io_defs new_effects_def)
    qed
  qed
  have b: "new_effects w (receive self (Some (JObj kvs)) w) =
        [Log INFO ''Received message from {self.user.username} in room {self.room_id}: {message_content}'',
         GroupSend g (TypingStatus (username u) (JBool False) (now w)),
         DbCreate (created w (py_get kvs ''message'' (JStr [])) u r),
         GroupSend g (ChatMessage (Some (JInt (next_id (storage w))))
            (py_get kvs ''message'' (JStr [])) (username u) ''message'' (Some ''sent'') (now w)),
         DbSave ((created w (py_get kvs ''message'' (JStr [])) u r)\<lparr>status := ''sent''\<rparr>),
         GroupSend g (MessageStatus (JInt (next_id (storage w))) ''sent'' (username u) (now w)),
         Log INFO ''Message {message_id} status updated to {status} by {self.user.username}'']"
    if "py_get kvs ''type'' (JStr ''message'') \<notin>
          set [JStr ''status'', JStr ''typing'', JStr ''read_receipt'']"
      and "py_get kvs ''message'' (JStr []) \<noteq> JNull"
      and "self_user self = Some (AuthUser u)" and "self_room_id self = Some rid"
      and "self_room self = Some r" and "self_room_group_name self = Some g"
      and "available (storage w)" and "keys_ok (storage w)"
    using receive_new_message [OF that] by simp
  show ?thesis
    using a b by (auto simp add: created_def)
qed

theorem status_saved_before_broadcast_witness:
  "write_then_publish (message_status_event db0) []
      (new_effects w0 (snd (update_message_status (session bob ''c2'') (JInt 1) ''seen'' w0)))
   \<and> new_effects w0 (receive (session alice ''c1'') (Some (JObj [(''message'', JStr ''hello'')])) w0) =
        [Log INFO ''Received message from {self.user.username} in room {self.room_id}: {message_content}'',
         GroupSend ''chat_1'' (TypingStatus ''alice'' (JBool False) 100),
         DbCreate \<lparr>message_id = 2, content = ''hello'', sender = alice, room = 1,
                   timestamp = 100, status = ''sending''\<rparr>,
         GroupSend ''chat_1'' (ChatMessage (Some (JInt 2)) (JStr ''hello'') ''alice'' ''message''
            (Some ''sent'') 100),
         DbSave \<lparr>message_id = 2, content = ''hello'', sender = alice, room = 1,
                 timestamp = 100, status = ''sent''\<rparr>,
         GroupSend ''chat_1'' (MessageStatus (JInt 2) ''sent'' ''alice'' 100),
         Log INFO ''Message {message_id} status updated to {status} by {self.user.username}'']"
  using status_saved_before_broadcast [where w = w0 and self = "session bob ''c2''"
      and mid = "JInt 1" and st = "''seen''"]
    status_saved_before_broadcast [where w = w0 and self = "session alice ''c1''"
      and kvs = "[(''message'', JStr ''hello'')]" and u = alice and rid = 1 and r = lobby
      and g = "''chat_1''"]
  by (simp add: session_def w0_def db0_def msg1_def lobby_def py_get_def keys_ok_def
      created_def text_of_def)
     (simp add: alice_def)

text \<open>
  C2, the claim as stated: alice sends ``hello''. The \<^verbatim>\<open>chat_message\<close> event that tells the
  room the message has status \<^verbatim>\<open>sent\<close> is broadcast while the stored status is still
  \<^verbatim>\<open>sending\<close>; the save of \<^verbatim>\<open>sent\<close> comes after it.
\<close>

theorem publish_before_write_counterexample:
  "\<not> write_then_publish (status_event db0) []
        (new_effects w0
           (receive (session alice ''c1'') (Some (JObj [(''message'', JStr ''hello'')])) w0))"
  by (simp add: receive_def receive_body_def new_message_def json_loads_def dict_get_def
      py_get_def update_typing_status_def Message_objects_create_def update_message_status_def
      Message_objects_get_def message_save_def io_defs username_of_def text_of_def
      save_row_def Let_def sample_defs new_effects_def)

text \<open>
  C8. A new message is broadcast to the room group as a \<^verbatim>\<open>chat_message\<close> event with status
  \<^verbatim>\<open>sent\<close>. The sender's channel is in that group, so its consumer handles the event too:
  it writes the \<^verbatim>\<open>chat.message\<close> frame with status \<^verbatim>\<open>sent\<close> to its own connection and does
  nothing else. More generally a consumer never asks for \<^verbatim>\<open>delivered\<close> on a chat message
  event that carries its own user name: it only forwards the frame.
\<close>

theorem sender_gets_echo:
  assumes "py_get kvs ''type'' (JStr ''message'') \<notin>
             set [JStr ''status'', JStr ''typing'', JStr ''read_receipt'']"
      and "py_get kvs ''message'' (JStr []) \<noteq> JNull"
      and "self_user self = Some (AuthUser u)"
      and "self_room_id self = Some rid"
      and "self_room self = Some r"
      and "self_room_group_name self = Some g"
      and "available (storage w)"
      and "keys_ok (storage w)"
      and "channel_name self \<in> groups w g"
  shows "[ev \<leftarrow> broadcasts (new_effects w (receive self (Some (JObj kvs)) w)).
            \<not> is_message_status ev \<and> ev \<noteq> TypingStatus (username u) (JBool False) (now w)] =
           [ChatMessage (Some (JInt (next_id (storage w)))) (py_get kvs ''message'' (JStr []))
              (username u) ''message'' (Some ''sent'') (now w)]
         \<and> GroupSend g (ChatMessage (Some (JInt (next_id (storage w))))
              (py_get kvs ''message'' (JStr [])) (username u) ''message'' (Some ''sent'') (now w))
            \<in> set (new_effects w (receive self (Some (JObj kvs)) w))
         \<and> channel_name self \<in> groups (receive self (Some (JObj kvs)) w) g
         \<and> (\<forall>v. dispatch self (ChatMessage (Some (JInt (next_id (storage w))))
                   (py_get kvs ''message'' (JStr [])) (username u) ''message'' (Some ''sent'') (now w)) v =
                 v\<lparr>trace := trace v @ [Send (channel_name self)
                     (ChatMessageF (JInt (next_id (storage w))) (py_get kvs ''message'' (JStr []))
                        (username u) ''message'' (JStr ''sent'') (now w))]\<rparr>)
         \<and> (\<forall>mid msg mtype st ts v.
                 dispatch self (ChatMessage mid msg (username u) mtype st ts) v =
                 v\<lparr>trace := trace v @ [Send (channel_name self)
                     (ChatMessageF (opt_json mid) msg (username u) mtype (opt_str st) ts)]\<rparr>)"
proof -
  have own: "dispatch self (ChatMessage mid msg (username u) mtype st ts) v =
                 v\<lparr>trace := trace v @ [Send (channel_name self)
                     (ChatMessageF (opt_json mid) msg (username u) mtype (opt_str st) ts)]\<rparr>"
    for mid msg mtype st ts v
    using assms(3) by (simp add: dispatch_def chat_message_def io_defs username_of_def)
  have run: "new_effects w (receive self (Some (JObj kvs)) w) =
        [Log INFO ''Received message from {self.user.username} in room {self.room_id}: {message_content}'',
         GroupSend g (TypingStatus (username u) (JBool False) (now w)),
         DbCreate (created w (py_get kvs ''message'' (JStr [])) u r),
         GroupSend g (ChatMessage (Some (JInt (next_id (storage w))))
            (py_get kvs ''message'' (JStr [])) (username u) ''message'' (Some ''sent'') (now w)),
         DbSave ((created w (py_get kvs ''message'' (JStr [])) u r)\<lparr>status := ''sent''\<rparr>),
         GroupSend g (MessageStatus (JInt (next_id (storage w))) ''sent'' (username u) (now w)),
         Log INFO ''Message {message_id} status updated to {status} by {self.user.username}'']"
    using receive_new_message [OF assms(1-8)] by simp
  have grp: "groups (receive self (Some (JObj kvs)) w) = groups w"
    using receive_new_message [OF assms(1-8)] by simp
  show ?thesis
    using assms(9) by (simp add: run grp own broadcasts_def opt_json_def opt_str_def)
qed

theorem sender_gets_echo_witness:
  "GroupSend ''chat_1'' (ChatMessage (Some (JInt 2)) (JStr ''hello'') ''alice'' ''message''
       (Some ''sent'') 100)
     \<in> set (new_effects (w0\<lparr>groups := (\<lambda>_. {''c1'', ''c2''})\<rparr>)
              (receive (session alice ''c1'') (Some (JObj [(''message'', JStr ''hello'')]))
                 (w0\<lparr>groups := (\<lambda>_. {''c1'', ''c2''})\<rparr>)))
   \<and> dispatch (session alice ''c1'')
        (ChatMessage (Some (JInt 2)) (JStr ''hello'') ''alice'' ''message'' (Some ''sent'') 100) w0 =
      w0\<lparr>trace := [Send ''c1'' (ChatMessageF (JInt 2) (JStr ''hello'') ''alice'' ''message''
                       (JStr ''sent'') 100)]\<rparr>"
  using sender_gets_echo [where w = "w0\<lparr>groups := (\<lambda>_. {''c1'', ''c2''})\<rparr>"
      and self = "session alice ''c1''"
      and kvs = "[(''message'', JStr ''hello'')]" and u = alice and rid = 1 and r = lobby
      and g = "''chat_1''"]
  by (simp add: session_def w0_def db0_def msg1_def lobby_def py_get_def keys_ok_def)
     (simp add: alice_def opt_json_def opt_str_def)

text \<open>
  C9 (as amended). On an active session with reachable storage, a frame that is a JSON
  object, whose \<^verbatim>\<open>type\<close> is absent or none of \<^verbatim>\<open>status\<close>, \<^verbatim>\<open>typing\<close> and \<^verbatim>\<open>read_receipt\<close>, and
  whose \<^verbatim>\<open>message\<close> is not null, is a new message: one row is inserted and ends with status
  \<^verbatim>\<open>sent\<close>, its content is the \<^verbatim>\<open>message\<close> field (the empty string when the field is
  absent), and the room is sent the typing-false event, the chat message with that
  content, and the status event.
\<close>

theorem default_frame_is_new_message:
  assumes "py_get kvs ''type'' (JStr ''message'') \<notin>
             set [JStr ''status'', JStr ''typing'', JStr ''read_receipt'']"
      and "py_get kvs ''message'' (JStr []) \<noteq> JNull"
      and "self_user self = Some (AuthUser u)"
      and "self_room_id self = Some rid"
      and "self_room self = Some r"
      and "self_room_group_name self = Some g"
      and "available (storage w)"
      and "keys_ok (storage w)"
  shows "messages (storage (receive self (Some (JObj kvs)) w)) =
           messages (storage w) @
             [\<lparr>message_id = next_id (storage w),
               content = text_of (storage w) (py_get kvs ''message'' (JStr [])),
               sender = u, room = room_pk r, timestamp = now w, status = ''sent''\<rparr>]
         \<and> broadcasts (new_effects w (receive self (Some (JObj kvs)) w)) =
             [TypingStatus (username u) (JBool False) (now w),
              ChatMessage (Some (JInt (next_id (storage w)))) (py_get kvs ''message'' (JStr []))
                 (username u) ''message'' (Some ''sent'') (now w),
              MessageStatus (JInt (next_id (storage w))) ''sent'' (username u) (now w)]
         \<and> (map_of (rev kvs) ''message'' = None \<longrightarrow>
               py_get kvs ''message'' (JStr []) = JStr []
               \<and> text_of (storage w) (py_get kvs ''message'' (JStr [])) = [])
         \<and> (map_of (rev kvs) ''type'' = None \<longrightarrow>
               py_get kvs ''type'' (JStr ''message'') = JStr ''message'')"
  using receive_new_message [OF assms]
  by (simp add: broadcasts_def created_def py_get_def text_of_def)

theorem default_frame_is_new_message_witness:
  "messages (storage (receive (session alice ''c1'') (Some (JObj [(''type'', JStr ''chat'')])) w0)) =
     [msg1, \<lparr>message_id = 2, content = [], sender = alice, room = 1, timestamp = 100,
             status = ''sent''\<rparr>]
   \<and> broadcasts (new_effects w0
        (receive (session alice ''c1'') (Some (JObj [(''type'', JStr ''chat'')])) w0)) =
      [TypingStatus ''alice'' (JBool False) 100,
       ChatMessage (Some (JInt 2)) (JStr []) ''alice'' ''message'' (Some ''sent'') 100,
       MessageStatus (JInt 2) ''sent'' ''alice'' 100]"
  using default_frame_is_new_message [where w = w0 and self = "session alice ''c1''"
      and kvs = "[(''type'', JStr ''chat'')]" and u = alice and rid = 1 and r = lobby
      and g = "''chat_1''"]
  by (simp add: session_def w0_def db0_def msg1_def lobby_def py_get_def keys_ok_def text_of_def)
     (simp add: alice_def)

text \<open>
  C9, the claim as stated: a frame without a type whose \<^verbatim>\<open>message\<close> is null. The typing-false
  event is broadcast, the insert is refused (the content column is not nullable), the
  sender is sent an error frame; no row is created and no chat message is broadcast. A
  frame that is not an object (here an empty array) has no \<^verbatim>\<open>get\<close>: the sender is sent an
  error frame and nothing else happens.
\<close>

theorem null_message_counterexample:
  "receive (session alice ''c1'') (Some (JObj [(''message'', JNull)])) w0 =
     w0\<lparr>trace :=
       [Log INFO ''Received message from {self.user.username} in room {self.room_id}: {message_content}'',
        GroupSend ''chat_1'' (TypingStatus ''alice'' (JBool False) 100),
        Log ERROR ''Error in receive: {str(e)}'',
        Send ''c1'' (ErrorF IntegrityError)]\<rparr>
   \<and> receive (session alice ''c1'') (Some (JArr [])) w0 =
     w0\<lparr>trace := [Log ERROR ''Error in receive: {str(e)}'', Send ''c1'' (ErrorF AttributeError)]\<rparr>"
  by (simp add: receive_def receive_body_def new_message_def json_loads_def dict_get_def
      py_get_def update_typing_status_def Message_objects_create_def report_error_def
      io_defs username_of_def sample_defs)

section \<open>Joining a room\<close>

lemma replay_run:
  assumes "self_user self = Some (AuthUser u)"
      and "self_room_group_name self = Some g"
  shows "available (storage w) \<Longrightarrow> distinct (map message_id ms) \<Longrightarrow>
         list_all (\<lambda>m. find (\<lambda>x. message_id x = message_id m) (messages (storage w)) = Some m) ms \<Longrightarrow>
         fst (replay self ms w) = Inr ()
         \<and> trace (snd (replay self ms w)) =
             trace w @ concat (map (replay_step g u (channel_name self) (now w)) ms)
         \<and> groups (snd (replay self ms w)) = groups w
         \<and> now (snd (replay self ms w)) = now w"
proof (induction ms arbitrary: w)
  case Nil
  then show ?case by (simp add: returns_def)
next
  case (Cons m ms)
  let ?w0 = "w\<lparr>trace := trace w @ [Send (channel_name self) (history_frame m)]\<rparr>"
  have found: "find (\<lambda>x. message_id x = message_id m) (messages (storage w)) = Some m"
    using Cons.prems(3) by simp
  have others: "list_all (\<lambda>x. message_id x \<noteq> message_id m) ms"
    using Cons.prems(2) by (auto simp add: list_all_iff rev_image_eqI)
  show ?case
  proof (cases "owed u m")
    case True
    let ?m' = "m\<lparr>status := ''delivered''\<rparr>"
    let ?w1 = "?w0\<lparr>storage := (storage ?w0)\<lparr>messages := save_row ?m' (messages (storage ?w0))\<rparr>,
                   trace := trace ?w0 @
                     [DbSave ?m',
                      GroupSend g (MessageStatus (JInt (message_id m)) ''delivered''
                         (username_of (AuthUser u)) (now ?w0)),
                      Log INFO ''Message {message_id} status updated to {status} by {self.user.username}'']\<rparr>"
    have ums: "update_message_status self (JInt (message_id m)) ''delivered'' ?w0 = (Inr (), ?w1)"
      by (rule ums_found) (use Cons.prems(1) found assms in simp_all)
    have step: "replay self (m # ms) w = replay self ms ?w1"
      using True assms(1) ums
      by (simp add: io_bind_def send_def emit_def attr_def returns_def differs_def owed_def)
    have av: "available (storage ?w1)" using Cons.prems(1) by simp
    have rows: "list_all (\<lambda>m. find (\<lambda>x. message_id x = message_id m) (messages (storage ?w1)) = Some m) ms"
      using Cons.prems(3) others
      by (auto simp add: list_all_iff find_save_row_other)
    have dist: "distinct (map message_id ms)" using Cons.prems(2) by simp
    show ?thesis
      using Cons.IH [OF av dist rows] True
      unfolding step
      by (simp add: replay_step_def username_of_def)
  next
    case False
    have step: "replay self (m # ms) w = replay self ms ?w0"
      using False assms(1)
      by (auto simp add: io_bind_def send_def emit_def attr_def returns_def differs_def owed_def)
    have av: "available (storage ?w0)" using Cons.prems(1) by simp
    have rows: "list_all (\<lambda>m. find (\<lambda>x. message_id x = message_id m) (messages (storage ?w0)) = Some m) ms"
      using Cons.prems(3) by simp
    have dist: "distinct (map message_id ms)" using Cons.prems(2) by simp
    show ?thesis
      using Cons.IH [OF av dist rows] False
      unfolding step
      by (simp add: replay_step_def)
  qed
qed


lemma connect_joined_unfold:
  assumes "self_user self = Some (AuthUser u)"
      and "self_room_group_name self = Some g"
      and "self_room self = Some r"
      and "available (storage w)"
  shows "connect_joined self w =
     (case replay self (rev (recent_rows (storage w) r))
             (w\<lparr>groups := (groups w)(g := insert (channel_name self) (groups w g)),
                trace := trace w @
                  [Log INFO ''User {self.user.username} attempting to connect to room {self.room_id}'',
                   GroupAdd g (channel_name self), Accept (channel_name self)]\<rparr>) of
        (Inl e, w') \<Rightarrow> (Inl e, w')
      | (Inr x, w') \<Rightarrow>
          (Inr (), w'\<lparr>trace := trace w' @
             [GroupSend g (ChatMessage None (JStr (username u @ '' joined the chat''))
                (username u) ''join'' None (now w')),
              GroupSend g (UserStatus (username u) (JStr ''online'') (now w')),
              Log INFO ''User {self.user.username} successfully connected to room {self.room_id}'']\<rparr>))"
  using assms
  by (simp add: connect_joined_def update_user_status_def recent_messages_def io_defs
      username_of_def split: prod.splits sum.splits)

lemma newest_first_set:
  "newest_first xs ys \<Longrightarrow> set ys = set xs"
  by (auto simp add: newest_first_def dest: mset_eq_setD)

lemma recent_rows_subset:
  assumes "newest_first (room_rows d r) (order_newest d (room_rows d r))"
  shows "set (recent_rows d r) \<subseteq> set (messages d)"
proof -
  have "set (recent_rows d r) \<subseteq> set (order_newest d (room_rows d r))"
    by (simp add: recent_rows_def set_take_subset)
  also have "\<dots> = set (room_rows d r)"
    using assms by (rule newest_first_set)
  also have "\<dots> \<subseteq> set (messages d)"
    by (auto simp add: room_rows_def)
  finally show ?thesis .
qed

lemma recent_rows_distinct:
  assumes "distinct (map message_id (messages d))"
      and "newest_first (room_rows d r) (order_newest d (room_rows d r))"
  shows "distinct (map message_id (recent_rows d r))"
proof -
  have "distinct (map message_id (room_rows d r))"
    using assms(1) by (simp add: room_rows_def distinct_map_filter)
  moreover have "mset (map message_id (order_newest d (room_rows d r))) =
                 mset (map message_id (room_rows d r))"
    using assms(2) by (simp add: newest_first_def)
  ultimately have "distinct (map message_id (order_newest d (room_rows d r)))"
    using mset_eq_imp_distinct_iff by blast
  then have "distinct (take 50 (map message_id (order_newest d (room_rows d r))))"
    by (rule distinct_take)
  then show ?thesis
    by (simp add: recent_rows_def take_map)
qed

lemma connect_run:
  assumes "scope_user self = AuthUser u"
      and "available (storage w)"
      and "find (\<lambda>x. room_pk x = scope_room_id self) (chat_rooms (storage w)) = Some r"
      and "user_id u \<in> set (members r)"
      and "distinct (map message_id (messages (storage w)))"
      and "newest_first (room_rows (storage w) r) (order_newest (storage w) (room_rows (storage w) r))"
  shows "new_effects w (snd (connect self w)) =
           [Log INFO ''User {self.user.username} attempting to connect to room {self.room_id}'',
            GroupAdd (''chat_'' @ str_nat (scope_room_id self)) (channel_name self),
            Accept (channel_name self)] @
           concat (map (replay_step (''chat_'' @ str_nat (scope_room_id self)) u
                          (channel_name self) (now w))
                     (rev (recent_rows (storage w) r))) @
           [GroupSend (''chat_'' @ str_nat (scope_room_id self))
              (ChatMessage None (JStr (username u @ '' joined the chat''))
                 (username u) ''join'' None (now w)),
            GroupSend (''chat_'' @ str_nat (scope_room_id self))
              (UserStatus (username u) (JStr ''online'') (now w)),
            Log INFO ''User {self.user.username} successfully connected to room {self.room_id}'']
         \<and> groups (snd (connect self w)) =
             (groups w)(''chat_'' @ str_nat (scope_room_id self) :=
                insert (channel_name self) (groups w (''chat_'' @ str_nat (scope_room_id self))))"
proof -
  let ?g = "''chat_'' @ str_nat (scope_room_id self)"
  let ?self4 = "self\<lparr>self_user := Some (scope_user self),
                      self_room_id := Some (scope_room_id self),
                      self_room := Some r, self_room_group_name := Some ?g\<rparr>"
  let ?H = "rev (recent_rows (storage w) r)"
  let ?w3 = "w\<lparr>groups := (groups w)(?g := insert (channel_name ?self4) (groups w ?g)),
               trace := trace w @
                 [Log INFO ''User {self.user.username} attempting to connect to room {self.room_id}'',
                  GroupAdd ?g (channel_name ?self4), Accept (channel_name ?self4)]\<rparr>"
  have c: "connect self w =
             (?self4, snd (try_except (connect_joined ?self4) (connect_failed ?self4) w))"
    using assms(1-4)
    by (simp add: connect_def ChatRoom_objects_get_def members_filter_exists_def Let_def)
  have cj: "connect_joined ?self4 w =
     (case replay ?self4 ?H ?w3 of
        (Inl e, w') \<Rightarrow> (Inl e, w')
      | (Inr x, w') \<Rightarrow>
          (Inr (), w'\<lparr>trace := trace w' @
             [GroupSend ?g (ChatMessage None (JStr (username u @ '' joined the chat''))
                (username u) ''join'' None (now w')),
              GroupSend ?g (UserStatus (username u) (JStr ''online'') (now w')),
              Log INFO ''User {self.user.username} successfully connected to room {self.room_id}'']\<rparr>))"
    by (rule connect_joined_unfold) (use assms(1,2) in simp_all)
  have dist: "distinct (map message_id ?H)"
    using recent_rows_distinct [OF assms(5) assms(6)] by (simp add: rev_map [symmetric])
  have rows: "list_all (\<lambda>m. find (\<lambda>x. message_id x = message_id m) (messages (storage ?w3)) = Some m) ?H"
    using recent_rows_subset [OF assms(6)] assms(5)
    by (auto simp add: list_all_iff intro: find_distinct)
  have av: "available (storage ?w3)" using assms(2) by simp
  have a4: "self_user ?self4 = Some (AuthUser u)" using assms(1) by simp
  have g4: "self_room_group_name ?self4 = Some ?g" by simp
  note run = replay_run [OF a4 g4 av dist rows]
  obtain w4 where w4: "replay ?self4 ?H ?w3 = (Inr (), w4)"
    using run by (cases "replay ?self4 ?H ?w3") simp
  have t4: "trace w4 = trace ?w3 @ concat (map (replay_step ?g u (channel_name ?self4) (now ?w3)) ?H)"
    and g4': "groups w4 = groups ?w3" and n4: "now w4 = now ?w3"
    using run unfolding w4 by simp_all
  have "snd (connect self w) =
          w4\<lparr>trace := trace w4 @
             [GroupSend ?g (ChatMessage None (JStr (username u @ '' joined the chat''))
                (username u) ''join'' None (now w4)),
              GroupSend ?g (UserStatus (username u) (JStr ''online'') (now w4)),
              Log INFO ''User {self.user.username} successfully connected to room {self.room_id}'']\<rparr>"
    unfolding c try_except_def cj w4 by simp
  then show ?thesis
    by (simp add: t4 g4' n4 new_effects_def)
qed


lemma frames_to_append: "frames_to ch (xs @ ys) = frames_to ch xs @ frames_to ch ys"
  by (simp add: frames_to_def List.map_filter_def)

lemma saves_append: "saves (xs @ ys) = saves xs @ saves ys"
  by (simp add: saves_def List.map_filter_def)

lemma broadcasts_append: "broadcasts (xs @ ys) = broadcasts xs @ broadcasts ys"
  by (simp add: broadcasts_def List.map_filter_def)

lemma frames_to_Cons:
  "frames_to ch (e # es) =
     (case frame_to ch e of None \<Rightarrow> frames_to ch es | Some f \<Rightarrow> f # frames_to ch es)"
  and frames_to_Nil: "frames_to ch [] = []"
  by (simp_all add: frames_to_def split: option.splits)

lemma saves_Cons:
  "saves (e # es) = (case saved e of None \<Rightarrow> saves es | Some m \<Rightarrow> m # saves es)"
  and saves_Nil: "saves [] = []"
  by (simp_all add: saves_def split: option.splits)

lemma broadcasts_Cons:
  "broadcasts (e # es) =
     (case broadcast e of None \<Rightarrow> broadcasts es | Some ev \<Rightarrow> ev # broadcasts es)"
  and broadcasts_Nil: "broadcasts [] = []"
  by (simp_all add: broadcasts_def split: option.splits)

lemma frames_to_replay:
  "frames_to ch (concat (map (replay_step g u ch t) ms)) = map history_frame ms"
  by (induction ms) (simp_all add: frames_to_def List.map_filter_def replay_step_def)

lemma saves_replay:
  "saves (concat (map (replay_step g u ch t) ms)) =
     map (\<lambda>m. m\<lparr>status := ''delivered''\<rparr>) (filter (owed u) ms)"
  by (induction ms) (simp_all add: saves_def List.map_filter_def replay_step_def)

lemma chat_broadcasts_replay:
  "filter is_chat_message (broadcasts (concat (map (replay_step g u ch t) ms))) = []"
  by (induction ms) (simp_all add: broadcasts_def List.map_filter_def replay_step_def)

lemma frames_to_other_replay:
  "c \<noteq> ch \<Longrightarrow> frames_to c (concat (map (replay_step g u ch t) ms)) = []"
  by (induction ms) (simp_all add: frames_to_def List.map_filter_def replay_step_def)

lemma recent_sorted:
  assumes "newest_first (room_rows d r) (order_newest d (room_rows d r))"
  shows "sorted (map timestamp (rev (recent_rows d r)))"
proof -
  have "sorted (map (\<lambda>m. - timestamp m) (order_newest d (room_rows d r)))"
    using assms by (simp add: newest_first_def)
  then have "sorted (take 50 (map (\<lambda>m. - timestamp m) (order_newest d (room_rows d r))))"
    by (rule sorted_wrt_take)
  then have "sorted_wrt (\<lambda>a b. timestamp b \<le> timestamp a) (recent_rows d r)"
    by (simp add: recent_rows_def take_map sorted_wrt_map)
  then show ?thesis
    by (simp add: rev_map [symmetric] sorted_wrt_rev sorted_wrt_map)
qed

lemma recent_newest:
  assumes "newest_first (room_rows d r) (order_newest d (room_rows d r))"
  shows "\<forall>old \<in> set (drop 50 (order_newest d (room_rows d r))).
           \<forall>m \<in> set (recent_rows d r). timestamp old \<le> timestamp m"
proof -
  let ?S = "order_newest d (room_rows d r)"
  have "sorted (map (\<lambda>m. - timestamp m) (take 50 ?S @ drop 50 ?S))"
    using assms by (simp add: newest_first_def)
  then have "\<forall>a \<in> set (take 50 ?S). \<forall>b \<in> set (drop 50 ?S). - timestamp a \<le> - timestamp b"
    unfolding map_append sorted_append by auto
  then show ?thesis
    by (auto simp add: recent_rows_def)
qed

lemma recent_rows_split:
  assumes "newest_first (room_rows d r) (order_newest d (room_rows d r))"
  shows "mset (recent_rows d r) + mset (drop 50 (order_newest d (room_rows d r))) =
           mset (room_rows d r)"
proof -
  let ?S = "order_newest d (room_rows d r)"
  have "mset (take 50 ?S) + mset (drop 50 ?S) = mset (take 50 ?S @ drop 50 ?S)"
    by (simp only: mset_append)
  also have "\<dots> = mset (room_rows d r)"
    using assms by (simp add: newest_first_def)
  finally show ?thesis
    by (simp add: recent_rows_def)
qed

lemma newest_first_rev_sort: "newest_first xs (rev (sort_key timestamp xs))"
proof -
  have "sorted_wrt (\<lambda>a b. timestamp a \<le> timestamp b) (sort_key timestamp xs)"
    using sorted_sort_key [of timestamp xs] by (simp add: sorted_wrt_map)
  then have "sorted (map (\<lambda>m. - timestamp m) (rev (sort_key timestamp xs)))"
    by (simp add: sorted_wrt_map sorted_wrt_rev)
  then show ?thesis
    by (simp add: newest_first_def)
qed

text \<open>
  C3. A \<^verbatim>\<open>connect\<close> that succeeds (an authenticated member of an existing room, storage
  reachable) accepts the connection and writes to it, and to no other connection, one
  frame for each row of the window the query returns, oldest first. Whatever order the
  database gives to rows of equal timestamp, the window holds \<open>min N 50\<close> of the \<open>N\<close> rows
  of the room, the window and the rows left out are together the rows of the room, and
  none of the rows left out is newer than one that is sent. No history message is
  broadcast to the room. For exactly the rows of the window whose sender is another user
  and whose status is \<^verbatim>\<open>sent\<close> the row is saved as \<^verbatim>\<open>delivered\<close>, once each and in the order
  of the window.
\<close>

theorem connect_replays_recent_history:
  assumes "scope_user self = AuthUser u"
      and "available (storage w)"
      and "find (\<lambda>x. room_pk x = scope_room_id self) (chat_rooms (storage w)) = Some r"
      and "user_id u \<in> set (members r)"
      and "distinct (map message_id (messages (storage w)))"
      and "newest_first (room_rows (storage w) r) (order_newest (storage w) (room_rows (storage w) r))"
  shows "reached_active self w (snd (connect self w))
         \<and> frames_to (channel_name self) (new_effects w (snd (connect self w))) =
             map history_frame (rev (recent_rows (storage w) r))
         \<and> length (rev (recent_rows (storage w) r)) = min (length (room_rows (storage w) r)) 50
         \<and> mset (rev (recent_rows (storage w) r))
             + mset (drop 50 (order_newest (storage w) (room_rows (storage w) r))) =
             mset (room_rows (storage w) r)
         \<and> sorted (map timestamp (rev (recent_rows (storage w) r)))
         \<and> (\<forall>old \<in> set (drop 50 (order_newest (storage w) (room_rows (storage w) r))).
              \<forall>m \<in> set (rev (recent_rows (storage w) r)). timestamp old \<le> timestamp m)
         \<and> saves (new_effects w (snd (connect self w))) =
             map (\<lambda>m. m\<lparr>status := ''delivered''\<rparr>)
               (filter (owed u) (rev (recent_rows (storage w) r)))
         \<and> filter is_chat_message (broadcasts (new_effects w (snd (connect self w)))) = []
         \<and> (\<forall>c. c \<noteq> channel_name self \<longrightarrow>
               frames_to c (new_effects w (snd (connect self w))) = [])"
proof -
  note run = connect_run [OF assms]
  have active: "reached_active self w (snd (connect self w))"
    by (simp add: reached_active_def run)
  have frames: "frames_to (channel_name self) (new_effects w (snd (connect self w))) =
             map history_frame (rev (recent_rows (storage w) r))"
    by (simp add: run frames_to_append frames_to_replay frames_to_Cons frames_to_Nil)
  have "length (order_newest (storage w) (room_rows (storage w) r)) =
          length (room_rows (storage w) r)"
    using assms(6) by (auto simp add: newest_first_def dest: mset_eq_length)
  then have len: "length (rev (recent_rows (storage w) r)) =
                    min (length (room_rows (storage w) r)) 50"
    by (simp add: recent_rows_def)
  have split: "mset (rev (recent_rows (storage w) r))
             + mset (drop 50 (order_newest (storage w) (room_rows (storage w) r))) =
             mset (room_rows (storage w) r)"
    using recent_rows_split [OF assms(6)] by simp
  have newest: "\<forall>old \<in> set (drop 50 (order_newest (storage w) (room_rows (storage w) r))).
              \<forall>m \<in> set (rev (recent_rows (storage w) r)). timestamp old \<le> timestamp m"
    using recent_newest [OF assms(6)] by simp
  have saved: "saves (new_effects w (snd (connect self w))) =
             map (\<lambda>m. m\<lparr>status := ''delivered''\<rparr>)
               (filter (owed u) (rev (recent_rows (storage w) r)))"
    by (simp add: run saves_append saves_replay saves_Cons saves_Nil)
  have chat: "filter is_chat_message (broadcasts (new_effects w (snd (connect self w)))) = []"
    by (simp add: run broadcasts_append chat_broadcasts_replay broadcasts_Cons broadcasts_Nil)
  have other: "frames_to c (new_effects w (snd (connect self w))) = []"
    if "c \<noteq> channel_name self" for c
    using that
    by (simp add: run frames_to_append frames_to_other_replay frames_to_Cons frames_to_Nil)
  show ?thesis
    using active frames len split recent_sorted [OF assms(6)] newest saved chat other by blast
qed

theorem connect_replays_recent_history_witness:
  "frames_to ''c2'' (new_effects (with_messages backlog)
      (snd (connect (arriving (AuthUser bob) 1 ''c2'') (with_messages backlog)))) =
     [ChatMessageF (JInt 1) (JStr ''one'') ''alice'' ''message'' (JStr ''sent'') 10,
      ChatMessageF (JInt 4) (JStr ''two'') ''bob'' ''message'' (JStr ''sent'') 20,
      ChatMessageF (JInt 3) (JStr ''three'') ''alice'' ''message'' (JStr ''delivered'') 30]
   \<and> saves (new_effects (with_messages backlog)
      (snd (connect (arriving (AuthUser bob) 1 ''c2'') (with_messages backlog)))) =
     [\<lparr>message_id = 1, content = ''one'', sender = alice, room = 1, timestamp = 10,
       status = ''delivered''\<rparr>]
   \<and> frames_to ''c2'' (new_effects (with_messages tied)
      (snd (connect (arriving (AuthUser bob) 1 ''c2'') (with_messages tied)))) =
     [ChatMessageF (JInt 4) (JStr ''d'') ''alice'' ''message'' (JStr ''sent'') 5,
      ChatMessageF (JInt 1) (JStr ''a'') ''alice'' ''message'' (JStr ''sent'') 10,
      ChatMessageF (JInt 2) (JStr ''b'') ''alice'' ''message'' (JStr ''sent'') 10,
      ChatMessageF (JInt 3) (JStr ''c'') ''alice'' ''message'' (JStr ''sent'') 10]
   \<and> length (frames_to ''c2'' (new_effects (with_messages (map old_message [1..<71]))
      (snd (connect (arriving (AuthUser bob) 1 ''c2'') (with_messages (map old_message [1..<71])))))) = 50"
proof -
  have d: "distinct (map message_id (map old_message [1..<71]))"
    by (simp add: distinct_map old_message_def inj_on_def)
  have n: "length (room_rows (db0\<lparr>messages := map old_message [1..<71]\<rparr>) lobby) = 70"
    by (simp add: room_rows_def old_message_def lobby_def filter_map o_def)
  have nf: "newest_first xs (rev (sort_key timestamp xs))" for xs
    by (rule newest_first_rev_sort)
  show ?thesis
    using connect_replays_recent_history [where self = "arriving (AuthUser bob) 1 ''c2''"
        and u = bob and r = lobby and w = "with_messages backlog"]
      connect_replays_recent_history [where self = "arriving (AuthUser bob) 1 ''c2''"
        and u = bob and r = lobby and w = "with_messages tied"]
      connect_replays_recent_history [where self = "arriving (AuthUser bob) 1 ''c2''"
        and u = bob and r = lobby and w = "with_messages (map old_message [1..<71])"]
      d n
    by (simp add: with_messages_def w0_def db0_def arriving_def nf)
       (simp add: backlog_def tied_def recent_rows_def room_rows_def lobby_def bob_def alice_def
          carol_def history_frame_def owed_def)
qed

end
